theory Spec2Isabelle
  imports Complex_Main
begin

section \<open>pylinalg: quaternion and vector functions\<close>

text \<open>
  A shallow embedding of \<^verbatim>\<open>pylinalg/func/quaternion.py\<close> and
  \<^verbatim>\<open>pylinalg/func/vector.py\<close>.

  Conventions of the embedding.
  \<^item> A float64 element is a \<^typ>\<open>real\<close>: arithmetic is exact, there is no rounding, no
    NaN and no infinity. Where numpy would produce NaN or Inf (a division by a zero norm)
    the theorems carry the hypothesis that excludes it. Where a statement depends on the
    range of float64 or on the content of unwritten memory, the cells are of the type
    \<open>float64\<close> below, which has the infinities and NaN.
  \<^item> An int64 element is a \<^typ>\<open>real\<close> that is an integer; int64 arithmetic wraps around.
  \<^item> An array of fixed trailing size is a record (\<open>vec3\<close>, \<open>quat\<close>); an array whose
    shape matters is a record of its shape and its cells in C order.
  \<^item> A Python exception is a value of \<open>error\<close>, returned as \<open>Inl\<close>.
  \<^item> The contents of a buffer that \<^verbatim>\<open>np.empty\<close> (or a masked ufunc) leaves
    unwritten are a parameter of the function: every theorem holds for all of them.
\<close>

subsection \<open>Exceptions and element types\<close>

datatype error =
    NotImplementedError
  | IndexError
  | ValueError
  | TypeError
  | KeyError
  | AxisError
  | ZeroDivisionError
  | FloatingPointError

text \<open>The exceptions Python and numpy use for a failed numeric computation.\<close>

definition numeric_errors :: "error set" where
  "numeric_errors = {ZeroDivisionError, FloatingPointError}"

datatype dtype = Float64 | Int64

record vec3 =
  vx :: real
  vy :: real
  vz :: real

record quat =
  qx :: real
  qy :: real
  qz :: real
  qw :: real

record ndarray =
  dtype_of :: dtype
  shape :: "nat list"
  cells :: "real list"

subsection \<open>float64 cells with infinities and NaN\<close>

text \<open>
  Where the range of float64, or what unwritten memory may hold, decides a statement, a
  cell is a \<open>float64\<close>: a number, an infinity or NaN. The operations follow IEEE 754 on
  the special values. On numbers they give the exact result unless it leaves the range:
  a result at or beyond \<open>overflow_threshold\<close>, halfway between the largest float64 and
  \<open>2^1024\<close>, is an infinity, and a result of magnitude at most \<open>underflow_threshold\<close>,
  half the smallest positive float64, is zero. Rounding within the range and the sign of
  zero are left out.
\<close>

datatype float64 = Finite real | PInf | NInf | NaN

definition overflow_threshold :: real where
  "overflow_threshold = 2 ^ 1024 - 2 ^ 970"

definition underflow_threshold :: real where
  "underflow_threshold = 1 / 2 ^ 1075"

definition round_range :: "real \<Rightarrow> float64" where
  "round_range r =
     (if overflow_threshold \<le> r then PInf
      else if r \<le> - overflow_threshold then NInf
      else if \<bar>r\<bar> \<le> underflow_threshold then Finite 0
      else Finite r)"

text \<open>The sign of a value that is not NaN, as a number.\<close>

fun signum :: "float64 \<Rightarrow> real" where
  "signum (Finite x) = sgn x"
| "signum PInf = 1"
| "signum NInf = - 1"
| "signum NaN = 0"

fun f_mul :: "float64 \<Rightarrow> float64 \<Rightarrow> float64" where
  "f_mul NaN b = NaN"
| "f_mul a NaN = NaN"
| "f_mul (Finite x) (Finite y) = round_range (x * y)"
| "f_mul a b =
     (if signum a * signum b = 0 then NaN
      else if 0 < signum a * signum b then PInf
      else NInf)"

fun f_add :: "float64 \<Rightarrow> float64 \<Rightarrow> float64" where
  "f_add NaN b = NaN"
| "f_add a NaN = NaN"
| "f_add (Finite x) (Finite y) = round_range (x + y)"
| "f_add PInf NInf = NaN"
| "f_add NInf PInf = NaN"
| "f_add PInf b = PInf"
| "f_add NInf b = NInf"
| "f_add a b = b"

fun f_div :: "float64 \<Rightarrow> float64 \<Rightarrow> float64" where
  "f_div NaN b = NaN"
| "f_div a NaN = NaN"
| "f_div (Finite x) (Finite y) =
     (if y = 0 then (if x = 0 then NaN else if 0 < x then PInf else NInf)
      else round_range (x / y))"
| "f_div (Finite x) b = Finite 0"
| "f_div a (Finite y) =
     (if 0 < signum a * (if y < 0 then - 1 else 1) then PInf else NInf)"
| "f_div a b = NaN"

fun f_sqrt :: "float64 \<Rightarrow> float64" where
  "f_sqrt (Finite x) = (if x < 0 then NaN else Finite (sqrt x))"
| "f_sqrt PInf = PInf"
| "f_sqrt NInf = NaN"
| "f_sqrt NaN = NaN"

fun f_arccos :: "float64 \<Rightarrow> float64" where
  "f_arccos (Finite x) = (if - 1 \<le> x \<and> x \<le> 1 then Finite (arccos x) else NaN)"
| "f_arccos a = NaN"

text \<open>\<^verbatim>\<open>np.sign\<close>.\<close>

fun f_sign :: "float64 \<Rightarrow> float64" where
  "f_sign (Finite x) = Finite (sgn x)"
| "f_sign PInf = Finite 1"
| "f_sign NInf = Finite (- 1)"
| "f_sign NaN = NaN"

record float3 =
  slot0 :: float64
  slot1 :: float64
  slot2 :: float64

record float4 =
  cell0 :: float64
  cell1 :: float64
  cell2 :: float64
  cell3 :: float64

subsection \<open>Arithmetic on short arrays\<close>

text \<open>\<^verbatim>\<open>a[:3]\<close> of a quaternion array: its vector part.\<close>

definition xyz_of :: "quat \<Rightarrow> vec3" where
  "xyz_of a = \<lparr>vx = qx a, vy = qy a, vz = qz a\<rparr>"

definition np_cross :: "vec3 \<Rightarrow> vec3 \<Rightarrow> vec3" where
  "np_cross a b =
     \<lparr>vx = vy a * vz b - vz a * vy b,
      vy = vz a * vx b - vx a * vz b,
      vz = vx a * vy b - vy a * vx b\<rparr>"

definition np_dot :: "vec3 \<Rightarrow> vec3 \<Rightarrow> real" where
  "np_dot a b = vx a * vx b + vy a * vy b + vz a * vz b"

definition vadd :: "vec3 \<Rightarrow> vec3 \<Rightarrow> vec3" where
  "vadd a b = \<lparr>vx = vx a + vx b, vy = vy a + vy b, vz = vz a + vz b\<rparr>"

definition smul :: "real \<Rightarrow> vec3 \<Rightarrow> vec3" where
  "smul c a = \<lparr>vx = c * vx a, vy = c * vy a, vz = c * vz a\<rparr>"

definition vdiv :: "vec3 \<Rightarrow> real \<Rightarrow> vec3" where
  "vdiv a c = \<lparr>vx = vx a / c, vy = vy a / c, vz = vz a / c\<rparr>"

text \<open>\<^verbatim>\<open>np.linalg.norm(v, axis=-1)\<close> of one vector.\<close>

definition np_linalg_norm :: "vec3 \<Rightarrow> real" where
  "np_linalg_norm a = sqrt ((vx a)\<^sup>2 + (vy a)\<^sup>2 + (vz a)\<^sup>2)"

text \<open>The Euclidean norm of a quaternion, as in the glossary's "unit quaternion".\<close>

definition quat_norm :: "quat \<Rightarrow> real" where
  "quat_norm q = sqrt ((qx q)\<^sup>2 + (qy q)\<^sup>2 + (qz q)\<^sup>2 + (qw q)\<^sup>2)"

definition identity_quaternion :: quat where
  "identity_quaternion = \<lparr>qx = 0, qy = 0, qz = 0, qw = 1\<rparr>"

text \<open>
  \<^verbatim>\<open>np.arctan2(y, x)\<close> on finite floats (signed zeros apart): the angle of the
  point \<open>(x, y)\<close> in \<open>(-\<pi>, \<pi>]\<close>, and 0 at the origin.
\<close>

definition np_arctan2 :: "real \<Rightarrow> real \<Rightarrow> real" where
  "np_arctan2 y x =
     (if 0 < x then arctan (y / x)
      else if x < 0 then (if 0 \<le> y then arctan (y / x) + pi else arctan (y / x) - pi)
      else if 0 < y then pi / 2
      else if y < 0 then - (pi / 2)
      else 0)"

subsection \<open>A store of quaternion arrays\<close>

text \<open>
  The functions of quaternion.py write their result into an array \<^verbatim>\<open>out\<close> that
  the caller may supply and that may be one of the operands
  (\<^verbatim>\<open>quaternion_multiply(out, q, out=out)\<close>). Arrays of shape \<open>[4]\<close> therefore
  live in a store: an address names an array, \<open>mem\<close> gives its contents, and \<open>brk\<close>
  is the first address not yet allocated. The arrays of the store are float64 arrays;
  the \<^verbatim>\<open>dtype\<close> argument, which these functions read only to choose the element
  type of a freshly allocated \<^verbatim>\<open>out\<close>, is left out of them.
\<close>

type_synonym addr = nat

record heap =
  mem :: "addr \<Rightarrow> quat"
  brk :: addr

text \<open>\<^verbatim>\<open>np.empty(4)\<close>: a fresh array whose contents \<open>u\<close> are arbitrary.\<close>

definition np_empty :: "quat \<Rightarrow> heap \<Rightarrow> addr \<times> heap" where
  "np_empty u h = (brk h, \<lparr>mem = (mem h)(brk h := u), brk = Suc (brk h)\<rparr>)"

text \<open>An in-place write to the array at \<open>p\<close>.\<close>

definition poke :: "addr \<Rightarrow> (quat \<Rightarrow> quat) \<Rightarrow> heap \<Rightarrow> heap" where
  "poke p f h = h\<lparr>mem := (mem h)(p := f (mem h p))\<rparr>"

text \<open>
  An operand is an array in the store (\<open>Ref\<close>), or a value that shares no memory with
  any array in the store (\<open>Lit\<close>): a Python sequence, which \<^verbatim>\<open>np.asarray\<close>
  copies, or a view of an array local to the caller.
\<close>

datatype qarg = Ref addr | Lit quat

fun np_asarray :: "heap \<Rightarrow> qarg \<Rightarrow> quat" where
  "np_asarray h (Ref p) = mem h p"
| "np_asarray h (Lit q) = q"

fun allocated :: "heap \<Rightarrow> qarg \<Rightarrow> bool" where
  "allocated h (Ref p) = (p < brk h)"
| "allocated h (Lit q) = True"

text \<open>\<^verbatim>\<open>if out is None: out = np.empty(...)\<close>.\<close>

definition out_or_empty :: "addr option \<Rightarrow> quat \<Rightarrow> heap \<Rightarrow> addr \<times> heap" where
  "out_or_empty out u h = (case out of None \<Rightarrow> np_empty u h | Some p \<Rightarrow> (p, h))"

subsection \<open>quaternion.py\<close>

text \<open>
  \<open>quaternion_multiply\<close>, lines 100-112. The temporaries \<^verbatim>\<open>xyz\<close> and
  \<^verbatim>\<open>w\<close> are computed from the store as it is before the two writes to
  \<^verbatim>\<open>out\<close>.
\<close>

definition quaternion_multiply ::
    "qarg \<Rightarrow> qarg \<Rightarrow> addr option \<Rightarrow> quat \<Rightarrow> heap \<Rightarrow> addr \<times> heap" where
  "quaternion_multiply a b out u h =
     (let (p, h0) = out_or_empty out u h;
          xyz = vadd (vadd (smul (qw (np_asarray h0 a)) (xyz_of (np_asarray h0 b)))
                           (smul (qw (np_asarray h0 b)) (xyz_of (np_asarray h0 a))))
                     (np_cross (xyz_of (np_asarray h0 a)) (xyz_of (np_asarray h0 b)));
          w = qw (np_asarray h0 a) * qw (np_asarray h0 b)
              - np_dot (xyz_of (np_asarray h0 a)) (xyz_of (np_asarray h0 b));
          h1 = poke p (\<lambda>q. q\<lparr>qx := vx xyz, qy := vy xyz, qz := vz xyz\<rparr>) h0;
          h2 = poke p (\<lambda>q. q\<lparr>qw := w\<rparr>) h1
      in (p, h2))"

text \<open>
  \<open>quaternion_inverse\<close>, lines 209-217, on one quaternion:
  \<^verbatim>\<open>out[:] = quaternion\<close>, then \<^verbatim>\<open>out[..., :3] *= -1\<close>.
\<close>

definition quaternion_inverse ::
    "qarg \<Rightarrow> addr option \<Rightarrow> quat \<Rightarrow> heap \<Rightarrow> addr \<times> heap" where
  "quaternion_inverse quaternion out u h =
     (let (p, h0) = out_or_empty out u h;
          h1 = poke p (\<lambda>_. np_asarray h0 quaternion) h0;
          h2 = poke p (\<lambda>q. q\<lparr>qx := qx q * (- 1), qy := qy q * (- 1), qz := qz q * (- 1)\<rparr>) h1
      in (p, h2))"

text \<open>
  The \<^verbatim>\<open>axis\<close> argument of \<open>quaternion_make_from_axis_angle\<close>: a numpy array
  with its element type, or any other sequence of three numbers.
  \<^verbatim>\<open>np.asarray(axis, dtype=float)\<close> returns its argument itself when that is
  already a float64 array, and a converted copy otherwise.
\<close>

datatype array_like = Ndarray dtype vec3 | Sequence vec3

fun values_of :: "array_like \<Rightarrow> vec3" where
  "values_of (Ndarray dt v) = v"
| "values_of (Sequence v) = v"

fun asarray_is_same_object :: "array_like \<Rightarrow> bool" where
  "asarray_is_same_object (Ndarray Float64 v) = True"
| "asarray_is_same_object (Ndarray Int64 v) = False"
| "asarray_is_same_object (Sequence v) = False"

text \<open>
  \<open>quaternion_make_from_axis_angle\<close>, lines 246-259, on one axis and one angle.
  \<^verbatim>\<open>axis /= np.linalg.norm(axis, axis=-1)\<close> divides in place the array that
  \<^verbatim>\<open>axis\<close> names after \<^verbatim>\<open>np.asarray\<close>. The first component of the
  result is the caller's \<^verbatim>\<open>axis\<close> argument as it is after the call.
\<close>

definition quaternion_make_from_axis_angle ::
    "array_like \<Rightarrow> real \<Rightarrow> addr option \<Rightarrow> quat \<Rightarrow> heap \<Rightarrow> array_like \<times> addr \<times> heap" where
  "quaternion_make_from_axis_angle axis angle out u h =
     (let (p, h0) = out_or_empty out u h;
          axis' = vdiv (values_of axis) (np_linalg_norm (values_of axis));
          xyz = smul (sin (angle / 2)) axis';
          h1 = poke p (\<lambda>q. q\<lparr>qx := vx xyz, qy := vy xyz, qz := vz xyz\<rparr>) h0;
          h2 = poke p (\<lambda>q. q\<lparr>qw := cos (angle / 2)\<rparr>) h1
      in (if asarray_is_same_object axis then Ndarray Float64 axis' else axis, p, h2))"

text \<open>
  Lines 254-257 once more, on float64 cells, for a statement that depends on the range
  of float64. \<^verbatim>\<open>np.linalg.norm(axis, axis=-1)\<close> is the square root of the sum
  of the squares (numpy/linalg, the branch for the default order with an axis), and a
  square or the sum can overflow to infinity or underflow to zero. The first component
  of the result is \<^verbatim>\<open>axis\<close> after the division, the second what is written
  to \<^verbatim>\<open>out\<close>.
\<close>

definition np_linalg_norm_float64 :: "vec3 \<Rightarrow> float64" where
  "np_linalg_norm_float64 a =
     (let x = Finite (vx a); y = Finite (vy a); z = Finite (vz a)
      in f_sqrt (f_add (f_add (f_mul x x) (f_mul y y)) (f_mul z z)))"

definition quaternion_make_from_axis_angle_float64 :: "vec3 \<Rightarrow> real \<Rightarrow> float3 \<times> float4" where
  "quaternion_make_from_axis_angle_float64 axis angle =
     (let norm = np_linalg_norm_float64 axis;
          axis' = \<lparr>slot0 = f_div (Finite (vx axis)) norm,
                   slot1 = f_div (Finite (vy axis)) norm,
                   slot2 = f_div (Finite (vz axis)) norm\<rparr>;
          s = Finite (sin (angle / 2));
          out = \<lparr>cell0 = f_mul (slot0 axis') s, cell1 = f_mul (slot1 axis') s,
                 cell2 = f_mul (slot2 axis') s, cell3 = Finite (cos (angle / 2))\<rparr>
      in (axis', out))"

text \<open>
  Lines 166-183 of \<open>quaternion_make_from_unit_vectors\<close>, for one source vector: the
  replacement axis. \<open>fb\<close> is the content of \<^verbatim>\<open>np.empty\<close> for
  \<^verbatim>\<open>fallback\<close>; the three masked assignments follow in the source's order.
\<close>

definition fallback_axis :: "vec3 \<Rightarrow> vec3 \<Rightarrow> vec3" where
  "fallback_axis template fb =
     (let y_zero = (vy template = 0);
          z_zero = (vz template = 0);
          both_nonzero = (\<not> (y_zero \<or> z_zero));
          fallback1 = (if y_zero then \<lparr>vx = 0, vy = 1, vz = 0\<rparr> else fb);
          fallback2 = (if z_zero then \<lparr>vx = 0, vy = 0, vz = 1\<rparr> else fallback1);
          fallback3 = (if both_nonzero
                       then \<lparr>vx = 0 * vx template, vy = (- 1) * vz template, vz = 1 * vy template\<rparr>
                       else fallback2)
      in fallback3)"

text \<open>
  \<open>quaternion_make_from_unit_vectors\<close>, lines 152-185, on one source and one target.
  \<^verbatim>\<open>axis\<close> is the fresh array \<^verbatim>\<open>np.cross\<close> returns, so the in-place
  division inside \<open>quaternion_make_from_axis_angle\<close> reaches neither argument.
\<close>

definition quaternion_make_from_unit_vectors ::
    "vec3 \<Rightarrow> vec3 \<Rightarrow> addr option \<Rightarrow> quat \<Rightarrow> vec3 \<Rightarrow> heap \<Rightarrow> addr \<times> heap" where
  "quaternion_make_from_unit_vectors source target out u fb h =
     (let (p, h0) = out_or_empty out u h;
          axis = np_cross source target;
          angle = np_arctan2 (np_linalg_norm axis) (np_dot source target);
          use_fallback = (np_linalg_norm axis = 0);
          axis1 = (if use_fallback then fallback_axis source fb else axis)
      in snd (quaternion_make_from_axis_angle (Ndarray Float64 axis1) angle (Some p) u h0))"

text \<open>
  \<^verbatim>\<open>str.isupper\<close> and \<^verbatim>\<open>str.upper\<close> on one ASCII character.
\<close>

definition py_isupper :: "char \<Rightarrow> bool" where
  "py_isupper c = (65 \<le> (of_char c :: nat) \<and> (of_char c :: nat) \<le> 90)"

definition py_upper :: "char \<Rightarrow> char" where
  "py_upper c =
     (if 97 \<le> (of_char c :: nat) \<and> (of_char c :: nat) \<le> 122
      then char_of ((of_char c :: nat) - 32) else c)"

text \<open>
  \<^verbatim>\<open>{"X": 0, "Y": 1, "Z": 2}[x.upper()]\<close>, and the list comprehension over
  \<^verbatim>\<open>order\<close>, which raises at the first letter that is no key.
\<close>

definition axis_index :: "char \<Rightarrow> error + nat" where
  "axis_index c =
     (if py_upper c = CHR ''X'' then Inr 0
      else if py_upper c = CHR ''Y'' then Inr 1
      else if py_upper c = CHR ''Z'' then Inr 2
      else Inl KeyError)"

fun axis_indices :: "string \<Rightarrow> error + nat list" where
  "axis_indices [] = Inr []"
| "axis_indices (c # cs) =
     (case axis_index c of
        Inl e \<Rightarrow> Inl e
      | Inr i \<Rightarrow> (case axis_indices cs of Inl e \<Rightarrow> Inl e | Inr js \<Rightarrow> Inr (i # js)))"

text \<open>\<^verbatim>\<open>q[i] = v\<close> on an array of shape \<open>[4]\<close>, for \<open>i\<close> from 0 to 3.\<close>

definition set_slot :: "nat \<Rightarrow> real \<Rightarrow> quat \<Rightarrow> quat" where
  "set_slot i v q =
     (if i = 0 then q\<lparr>qx := v\<rparr>
      else if i = 1 then q\<lparr>qy := v\<rparr>
      else if i = 2 then q\<lparr>qz := v\<rparr>
      else q\<lparr>qw := v\<rparr>)"

text \<open>
  Assigning an array of shape \<open>(m,)\<close> to a target of shape \<open>(n,)\<close>: the lengths agree,
  or the one element is repeated; anything else does not broadcast.
\<close>

definition broadcast_to_length :: "real list \<Rightarrow> nat \<Rightarrow> error + real list" where
  "broadcast_to_length xs n =
     (if length xs = n then Inr xs
      else if length xs = 1 then Inr (replicate n (hd xs))
      else Inl ValueError)"

text \<open>
  The result of \<open>quaternion_make_from_euler_angles\<close>: an array of shape \<open>[4]\<close> in the
  store, or, for an order of one letter, a new array of shape \<open>(m, 4)\<close> given by its
  rows.
\<close>

datatype quat_result = OneQuat addr | QuatRows "quat list"

text \<open>
  \<open>quaternion_make_from_euler_angles\<close>, lines 288-311, called without \<^verbatim>\<open>out\<close>
  on an \<^verbatim>\<open>angles\<close> array with one axis, of any length \<open>m\<close>. With more than one
  letter the batch shape is \<open>()\<close>: \<^verbatim>\<open>quaternions\<close> has shape \<open>(n, 4)\<close> and the
  cosines and sines, of shape \<open>(m,)\<close>, are assigned to \<open>n\<close> cells each. With one letter
  the batch shape is \<open>(m,)\<close> and the loop does not run; with none,
  \<^verbatim>\<open>quaternions[0]\<close> is out of bounds. The rows of \<^verbatim>\<open>quaternions\<close> are
  views of an array local to the function, so they are \<open>Lit\<close> operands, while
  \<^verbatim>\<open>out\<close> is both an operand and the destination of every product.
\<close>

definition quaternion_make_from_euler_angles ::
    "real list \<Rightarrow> string \<Rightarrow> quat \<Rightarrow> heap \<Rightarrow> error + (quat_result \<times> heap)" where
  "quaternion_make_from_euler_angles angles order u h =
     (let n = length order;
          zero = \<lparr>qx = 0, qy = 0, qz = 0, qw = 0\<rparr>;
          is_extrinsic = map py_isupper order
      in case axis_indices order of
           Inl e \<Rightarrow> Inl e
         | Inr slots \<Rightarrow>
             if 1 < n then
               (let (out, h0) = np_empty u h
                in case broadcast_to_length (map (\<lambda>a. cos (a / 2)) angles) n of
                     Inl e \<Rightarrow> Inl e
                   | Inr cosines \<Rightarrow>
                       (case broadcast_to_length (map (\<lambda>a. sin (a / 2)) angles) n of
                          Inl e \<Rightarrow> Inl e
                        | Inr sines \<Rightarrow>
                            (let quaternions0 = replicate n zero;
                                 quaternions1 = map2 (\<lambda>q c. q\<lparr>qw := c\<rparr>) quaternions0 cosines;
                                 quaternions = map2 (\<lambda>q (i, s). set_slot i s q) quaternions1
                                                 (zip slots sines);
                                 h1 = poke out (\<lambda>_. quaternions ! 0) h0;
                                 h2 = fold (\<lambda>idx h'.
                                        snd (if is_extrinsic ! idx
                                             then quaternion_multiply (Ref out)
                                                    (Lit (quaternions ! idx)) (Some out) u h'
                                             else quaternion_multiply (Lit (quaternions ! idx))
                                                    (Ref out) (Some out) u h'))
                                        [1..<n] h1
                             in Inr (OneQuat out, h2))))
             else if n = 0 then Inl IndexError
             else
               Inr (QuatRows (map (\<lambda>a. set_slot (slots ! 0) (sin (a / 2))
                                          (zero\<lparr>qw := cos (a / 2)\<rparr>)) angles), h))"

subsection \<open>Arrays with a shape\<close>

text \<open>
  Assignment into a buffer converts to the buffer's element type; for an integer buffer
  numpy truncates towards zero.
\<close>

definition np_cast :: "dtype \<Rightarrow> real \<Rightarrow> real" where
  "np_cast dt v =
     (case dt of
        Float64 \<Rightarrow> v
      | Int64 \<Rightarrow> (if 0 \<le> v then of_int \<lfloor>v\<rfloor> else of_int \<lceil>v\<rceil>))"

text \<open>\<^verbatim>\<open>out[:] = c\<close>.\<close>

definition setitem_all :: "dtype \<Rightarrow> real \<Rightarrow> real list \<Rightarrow> real list" where
  "setitem_all dt c cs = map (\<lambda>_. np_cast dt c) cs"

text \<open>
  \<^verbatim>\<open>diagonal[:] = c\<close>, where \<^verbatim>\<open>diagonal\<close> is
  \<^verbatim>\<open>as_strided(out, shape=(n, 4), strides=(16 * itemsize, 5 * itemsize))\<close>: its
  element \<open>(k, j)\<close> is the cell \<open>16 k + 5 j\<close> of the buffer.
\<close>

definition diagonal_fill :: "dtype \<Rightarrow> nat \<Rightarrow> real \<Rightarrow> real list \<Rightarrow> real list" where
  "diagonal_fill dt n c cs =
     fold (\<lambda>k cs. fold (\<lambda>j cs. cs[16 * k + 5 * j := np_cast dt c]) [0..<4] cs) [0..<n] cs"

text \<open>
  \<^verbatim>\<open>out[..., i, j] = vals\<close> for a C-contiguous \<^verbatim>\<open>out\<close> of shape
  \<open>(*batch, 4, 4)\<close> and one value per batch element, \<open>n\<close> of them.
\<close>

definition setitem_ij ::
    "dtype \<Rightarrow> nat \<Rightarrow> nat \<Rightarrow> nat \<Rightarrow> (nat \<Rightarrow> real) \<Rightarrow> real list \<Rightarrow> real list" where
  "setitem_ij dt n i j vals cs =
     fold (\<lambda>k cs. cs[16 * k + 4 * i + j := np_cast dt (vals k)]) [0..<n] cs"

text \<open>\<^verbatim>\<open>a[..., c]\<close> at the batch element \<open>k\<close> (in C order).\<close>

definition getitem_last :: "ndarray \<Rightarrow> nat \<Rightarrow> nat \<Rightarrow> real" where
  "getitem_last a c k = cells a ! (last (shape a) * k + c)"

text \<open>\<^verbatim>\<open>out[k, i, :]\<close> of a result of \<open>quaternion_to_matrix\<close>.\<close>

definition matrix_row :: "ndarray \<Rightarrow> nat \<Rightarrow> nat \<Rightarrow> real list" where
  "matrix_row r k i = map (\<lambda>j. cells r ! (16 * k + (4 * i + j))) [0, 1, 2, 3]"

text \<open>
  The element type of the result: that of \<^verbatim>\<open>out\<close> when it is supplied, else
  \<^verbatim>\<open>dtype\<close>, else float64 (\<^verbatim>\<open>np.empty(shape, dtype=None)\<close>).
\<close>

definition result_dtype :: "(dtype \<times> (nat \<Rightarrow> real)) option \<Rightarrow> dtype option \<Rightarrow> dtype" where
  "result_dtype out dtype =
     (case out of
        Some b \<Rightarrow> fst b
      | None \<Rightarrow> (case dtype of None \<Rightarrow> Float64 | Some d \<Rightarrow> d))"

text \<open>
  The arithmetic of an array's element type. A float64 product, sum or difference is the
  exact one (see the conventions at the top); an int64 one wraps around modulo \<open>2^64\<close>.
  The cells of an int64 array are integers, and the Python scalars \<open>2\<close> and \<open>1\<close> take the
  element type of the array they meet.
\<close>

definition wrap_int64 :: "int \<Rightarrow> int" where
  "wrap_int64 v = (v + 2 ^ 63) mod 2 ^ 64 - 2 ^ 63"

definition np_multiply :: "dtype \<Rightarrow> real \<Rightarrow> real \<Rightarrow> real" where
  "np_multiply dt a b =
     (case dt of Float64 \<Rightarrow> a * b | Int64 \<Rightarrow> of_int (wrap_int64 (\<lfloor>a\<rfloor> * \<lfloor>b\<rfloor>)))"

definition np_add :: "dtype \<Rightarrow> real \<Rightarrow> real \<Rightarrow> real" where
  "np_add dt a b =
     (case dt of Float64 \<Rightarrow> a + b | Int64 \<Rightarrow> of_int (wrap_int64 (\<lfloor>a\<rfloor> + \<lfloor>b\<rfloor>)))"

definition np_subtract :: "dtype \<Rightarrow> real \<Rightarrow> real \<Rightarrow> real" where
  "np_subtract dt a b =
     (case dt of Float64 \<Rightarrow> a - b | Int64 \<Rightarrow> of_int (wrap_int64 (\<lfloor>a\<rfloor> - \<lfloor>b\<rfloor>)))"

text \<open>
  \<open>quaternion_to_matrix\<close>, lines 28-74. The quaternion array has any batch shape and
  its own element type \<open>et\<close>, in which the products and sums are computed
  (\<^verbatim>\<open>np.asarray(quaternion)\<close> converts nothing); a supplied \<^verbatim>\<open>out\<close> is a
  C-contiguous array of the result shape, given by its element type and its contents
  before the call; \<open>u\<close> is what \<^verbatim>\<open>np.empty\<close> holds.
  \<^verbatim>\<open>quaternion[..., c]\<close> raises IndexError on an array without a last axis of at
  least 4.
\<close>

definition quaternion_to_matrix ::
    "ndarray \<Rightarrow> (dtype \<times> (nat \<Rightarrow> real)) option \<Rightarrow> dtype option \<Rightarrow> (nat \<Rightarrow> real)
       \<Rightarrow> error + ndarray" where
  "quaternion_to_matrix quaternion out dtype u =
     (let result_shape = butlast (shape quaternion) @ [4, 4];
          dt = result_dtype out dtype;
          et = dtype_of quaternion;
          content = (case out of None \<Rightarrow> u | Some b \<Rightarrow> snd b);
          n_matrices = prod_list (butlast (shape quaternion));
          cs0 = map content [0..<16 * n_matrices];
          cs1 = setitem_all dt 0 cs0;
          cs2 = diagonal_fill dt n_matrices 1 cs1
      in if shape quaternion = [] \<or> last (shape quaternion) < 4 then Inl IndexError
         else
           (let x = getitem_last quaternion 0;
                y = getitem_last quaternion 1;
                z = getitem_last quaternion 2;
                w = getitem_last quaternion 3;
                x2 = (\<lambda>k. np_multiply et (x k) 2);
                y2 = (\<lambda>k. np_multiply et (y k) 2);
                z2 = (\<lambda>k. np_multiply et (z k) 2);
                xx = (\<lambda>k. np_multiply et (x k) (x2 k));
                xy = (\<lambda>k. np_multiply et (x k) (y2 k));
                xz = (\<lambda>k. np_multiply et (x k) (z2 k));
                yy = (\<lambda>k. np_multiply et (y k) (y2 k));
                yz = (\<lambda>k. np_multiply et (y k) (z2 k));
                zz = (\<lambda>k. np_multiply et (z k) (z2 k));
                wx = (\<lambda>k. np_multiply et (w k) (x2 k));
                wy = (\<lambda>k. np_multiply et (w k) (y2 k));
                wz = (\<lambda>k. np_multiply et (w k) (z2 k));
                cs3 = setitem_ij dt n_matrices 0 0
                        (\<lambda>k. np_subtract et 1 (np_add et (yy k) (zz k))) cs2;
                cs4 = setitem_ij dt n_matrices 1 0 (\<lambda>k. np_add et (xy k) (wz k)) cs3;
                cs5 = setitem_ij dt n_matrices 2 0 (\<lambda>k. np_subtract et (xz k) (wy k)) cs4;
                cs6 = setitem_ij dt n_matrices 0 1 (\<lambda>k. np_subtract et (xy k) (wz k)) cs5;
                cs7 = setitem_ij dt n_matrices 1 1
                        (\<lambda>k. np_subtract et 1 (np_add et (xx k) (zz k))) cs6;
                cs8 = setitem_ij dt n_matrices 2 1 (\<lambda>k. np_add et (yz k) (wx k)) cs7;
                cs9 = setitem_ij dt n_matrices 0 2 (\<lambda>k. np_add et (xz k) (wy k)) cs8;
                cs10 = setitem_ij dt n_matrices 1 2 (\<lambda>k. np_subtract et (yz k) (wx k)) cs9;
                cs11 = setitem_ij dt n_matrices 2 2
                         (\<lambda>k. np_subtract et 1 (np_add et (xx k) (yy k))) cs10
            in Inr \<lparr>dtype_of = dt, shape = result_shape, cells = cs11\<rparr>))"

text \<open>
  The rows of the matrix the specification gives for the quaternion \<open>(x, y, z, w)\<close>
  (section 4.1), with the homogeneous column and row.
\<close>

definition spec_matrix_rows :: "real \<Rightarrow> real \<Rightarrow> real \<Rightarrow> real \<Rightarrow> real list list" where
  "spec_matrix_rows x y z w =
     (let x2 = 2 * x; y2 = 2 * y; z2 = 2 * z;
          xx = x * x2; xy = x * y2; xz = x * z2;
          yy = y * y2; yz = y * z2; zz = z * z2;
          wx = w * x2; wy = w * y2; wz = w * z2
      in [[1 - (yy + zz), xy - wz, xz + wy, 0],
          [xy + wz, 1 - (xx + zz), yz - wx, 0],
          [xz - wy, yz + wx, 1 - (xx + yy), 0],
          [0, 0, 0, 1]])"

text \<open>The same rows with every product, sum and difference taken in int64.\<close>

definition int64_matrix_rows :: "real \<Rightarrow> real \<Rightarrow> real \<Rightarrow> real \<Rightarrow> real list list" where
  "int64_matrix_rows x y z w =
     (let x2 = np_multiply Int64 x 2; y2 = np_multiply Int64 y 2; z2 = np_multiply Int64 z 2;
          xx = np_multiply Int64 x x2; xy = np_multiply Int64 x y2; xz = np_multiply Int64 x z2;
          yy = np_multiply Int64 y y2; yz = np_multiply Int64 y z2; zz = np_multiply Int64 z z2;
          wx = np_multiply Int64 w x2; wy = np_multiply Int64 w y2; wz = np_multiply Int64 w z2
      in [[np_subtract Int64 1 (np_add Int64 yy zz), np_subtract Int64 xy wz,
           np_add Int64 xz wy, 0],
          [np_add Int64 xy wz, np_subtract Int64 1 (np_add Int64 xx zz),
           np_subtract Int64 yz wx, 0],
          [np_subtract Int64 xz wy, np_add Int64 yz wx,
           np_subtract Int64 1 (np_add Int64 xx yy), 0],
          [0, 0, 0, 1]])"

subsection \<open>vector.py\<close>

text \<open>
  \<^verbatim>\<open>np.linalg.norm(a, axis=-1)\<close>: the norms along the last axis, an array of
  the leading shape. An array without axes has no axis \<open>-1\<close>.
\<close>

definition np_linalg_norm_last_axis :: "ndarray \<Rightarrow> error + ndarray" where
  "np_linalg_norm_last_axis a =
     (if shape a = [] then Inl AxisError
      else
        (let d = last (shape a); n = prod_list (butlast (shape a))
         in Inr \<lparr>dtype_of = Float64, shape = butlast (shape a),
                 cells = map (\<lambda>k. sqrt (sum_list (map (\<lambda>j. (cells a ! (k * d + j))\<^sup>2) [0..<d])))
                           [0..<n]\<rparr>))"

text \<open>
  \<^verbatim>\<open>a[:, None]\<close>: a new axis of length 1 after the first. The norm of a single
  vector is a scalar, which has no first axis to slice: IndexError.
\<close>

definition getitem_colon_None :: "ndarray \<Rightarrow> error + ndarray" where
  "getitem_colon_None a =
     (case shape a of
        [] \<Rightarrow> Inl IndexError
      | s0 # rest \<Rightarrow> Inr (a\<lparr>shape := s0 # 1 # rest\<rparr>))"

text \<open>Multi-indices in C order.\<close>

fun unravel_index :: "nat list \<Rightarrow> nat \<Rightarrow> nat list" where
  "unravel_index [] k = []"
| "unravel_index (d # ds) k = (k div prod_list ds) # unravel_index ds (k mod prod_list ds)"

fun ravel_index :: "nat list \<Rightarrow> nat list \<Rightarrow> nat" where
  "ravel_index (d # ds) (i # js) = i * prod_list ds + ravel_index ds js"
| "ravel_index ds js = 0"

text \<open>
  Broadcasting an operand of shape \<open>src\<close> to the shape \<open>tgt\<close> of the output: the shapes
  are aligned at their last axis, and an axis of the operand has the length of the
  output's or length 1, in which case its one element is repeated.
\<close>

definition broadcastable :: "nat list \<Rightarrow> nat list \<Rightarrow> bool" where
  "broadcastable src tgt =
     (length src \<le> length tgt
      \<and> list_all2 (\<lambda>s t. s = t \<or> s = 1) src (drop (length tgt - length src) tgt))"

definition broadcast_cell :: "ndarray \<Rightarrow> nat list \<Rightarrow> nat \<Rightarrow> real" where
  "broadcast_cell a tgt k =
     cells a ! ravel_index (shape a)
                 (map2 (\<lambda>s i. if s = 1 then 0 else i) (shape a)
                    (drop (length tgt - length (shape a)) (unravel_index tgt k)))"

text \<open>
  \<^verbatim>\<open>np.divide(x1, x2, out=out)\<close> for an \<^verbatim>\<open>out\<close> of element type
  \<open>out_dtype\<close> and shape \<open>out_shape\<close>. True division computes in float64; a float64
  result is not cast into an integer \<^verbatim>\<open>out\<close> (casting rule
  \<^verbatim>\<open>same_kind\<close>, a TypeError), and operands that do not broadcast to the shape of
  \<^verbatim>\<open>out\<close> are a ValueError.
\<close>

definition np_divide :: "ndarray \<Rightarrow> ndarray \<Rightarrow> dtype \<Rightarrow> nat list \<Rightarrow> error + ndarray" where
  "np_divide x1 x2 out_dtype out_shape =
     (if out_dtype = Int64 then Inl TypeError
      else if \<not> (broadcastable (shape x1) out_shape \<and> broadcastable (shape x2) out_shape)
      then Inl ValueError
      else Inr \<lparr>dtype_of = out_dtype, shape = out_shape,
                cells = map (\<lambda>k. broadcast_cell x1 out_shape k / broadcast_cell x2 out_shape k)
                          [0..<prod_list out_shape]\<rparr>)"

text \<open>
  \<open>vector_normalize\<close>, lines 25-28. A supplied \<^verbatim>\<open>out\<close> is an array of the shape
  of \<^verbatim>\<open>vectors\<close>, given by its element type;
  \<^verbatim>\<open>np.empty_like(vectors, dtype=dtype)\<close> has the element type of
  \<^verbatim>\<open>vectors\<close> unless \<^verbatim>\<open>dtype\<close> is given.
\<close>

definition vector_normalize :: "ndarray \<Rightarrow> dtype option \<Rightarrow> dtype option \<Rightarrow> error + ndarray" where
  "vector_normalize vectors out dtype =
     (let out_dtype =
            (case out of
               Some d \<Rightarrow> d
             | None \<Rightarrow> (case dtype of None \<Rightarrow> dtype_of vectors | Some d \<Rightarrow> d))
      in case np_linalg_norm_last_axis vectors of
           Inl e \<Rightarrow> Inl e
         | Inr norms \<Rightarrow>
             (case getitem_colon_None norms of
                Inl e \<Rightarrow> Inl e
              | Inr norms2 \<Rightarrow> np_divide vectors norms2 out_dtype (shape vectors)))"

text \<open>
  A ufunc called with \<^verbatim>\<open>where=mask\<close> and no \<^verbatim>\<open>out\<close>: where the mask is
  false the result is the unwritten content \<open>u\<close> of a fresh array.
\<close>

definition masked :: "bool \<Rightarrow> 'a \<Rightarrow> 'a \<Rightarrow> 'a" where
  "masked msk v u = (if msk then v else u)"

text \<open>
  \<open>vector_euclidean_to_spherical\<close>, lines 282-302, on one vector of numbers. The result
  array \<open>(r, phi, theta)\<close> has the shape of the input; its three cells are float64
  cells. \<^verbatim>\<open>out\<close> holds zeros before the first write, whether it is supplied or
  allocated. \<open>u1\<close> to \<open>u4\<close> are the unwritten contents of the results of the four
  masked calls, which are fresh float64 memory and may be anything, NaN and the
  infinities included.
\<close>

definition vector_euclidean_to_spherical ::
    "vec3 \<Rightarrow> float64 \<Rightarrow> float64 \<Rightarrow> float64 \<Rightarrow> float64 \<Rightarrow> float3" where
  "vector_euclidean_to_spherical euclidean u1 u2 u3 u4 =
     (let x = Finite (vx euclidean);
          y = Finite (vy euclidean);
          z = Finite (vz euclidean);
          out0 = \<lparr>slot0 = Finite 0, slot1 = Finite 0, slot2 = Finite 0\<rparr>;
          out1 = out0\<lparr>slot0 := f_sqrt (f_add (f_add (f_mul x x) (f_mul y y)) (f_mul z z))\<rparr>;
          len_xz = f_add (f_mul x x) (f_mul z z);
          xz_nonzero = (\<not> (len_xz = Finite 0));
          out2 = out1\<lparr>slot1 := masked xz_nonzero (f_div z (f_sqrt len_xz)) u1\<rparr>;
          out3 = out2\<lparr>slot1 := f_mul (f_sign x) (masked xz_nonzero (f_arccos (slot1 out2)) u2)\<rparr>;
          r_zero = (slot0 out3 = Finite 0);
          out4 = out3\<lparr>slot2 := masked (\<not> r_zero) (f_div z (slot0 out3)) u3\<rparr>;
          out5 = out4\<lparr>slot2 := masked (\<not> r_zero) (f_arccos (slot2 out4)) u4\<rparr>
      in out5)"

subsection \<open>Closed forms used in the statements\<close>

text \<open>
  The Hamilton product in the words of the specification (section 4.1): vector part
  \<open>a.w*b.xyz + b.w*a.xyz + cross(a.xyz, b.xyz)\<close>, scalar part
  \<open>a.w*b.w - dot(a.xyz, b.xyz)\<close>.
\<close>

definition hamilton :: "quat \<Rightarrow> quat \<Rightarrow> quat" where
  "hamilton a b =
     \<lparr>qx = qw a * qx b + qw b * qx a + (qy a * qz b - qz a * qy b),
      qy = qw a * qy b + qw b * qy a + (qz a * qx b - qx a * qz b),
      qz = qw a * qz b + qw b * qz a + (qx a * qy b - qy a * qx b),
      qw = qw a * qw b - (qx a * qx b + qy a * qy b + qz a * qz b)\<rparr>"

text \<open>The letters of an order string.\<close>

definition axis_letters :: "char set" where
  "axis_letters = {CHR ''X'', CHR ''Y'', CHR ''Z'', CHR ''x'', CHR ''y'', CHR ''z''}"

text \<open>
  The elementary quaternion of a letter and an angle, in the words of the specification:
  \<open>sin(angle/2)\<close> in that axis's slot of the vector part only, scalar \<open>cos(angle/2)\<close>.
\<close>

definition elementary :: "char \<Rightarrow> real \<Rightarrow> quat" where
  "elementary c angle =
     (if c = CHR ''X'' \<or> c = CHR ''x''
      then \<lparr>qx = sin (angle / 2), qy = 0, qz = 0, qw = cos (angle / 2)\<rparr>
      else if c = CHR ''Y'' \<or> c = CHR ''y''
      then \<lparr>qx = 0, qy = sin (angle / 2), qz = 0, qw = cos (angle / 2)\<rparr>
      else \<lparr>qx = 0, qy = 0, qz = sin (angle / 2), qw = cos (angle / 2)\<rparr>)"

text \<open>
  The fold of the specification over the letters after the first, each with its angle:
  \<open>accumulator * next\<close> for an uppercase (extrinsic) letter, \<open>next * accumulator\<close>
  otherwise.
\<close>

fun euler_fold :: "quat \<Rightarrow> (char \<times> real) list \<Rightarrow> quat" where
  "euler_fold acc [] = acc"
| "euler_fold acc ((c, angle) # rest) =
     euler_fold
       (if c = CHR ''X'' \<or> c = CHR ''Y'' \<or> c = CHR ''Z''
        then hamilton acc (elementary c angle)
        else hamilton (elementary c angle) acc)
       rest"

definition euler_spec :: "string \<Rightarrow> real list \<Rightarrow> quat" where
  "euler_spec order angles =
     euler_fold (elementary (hd order) (hd angles)) (tl (zip order angles))"

text \<open>The conjugate: the vector part negated, the scalar part kept.\<close>

definition conjugate :: "quat \<Rightarrow> quat" where
  "conjugate q = \<lparr>qx = - qx q, qy = - qy q, qz = - qz q, qw = qw q\<rparr>"

text \<open>The quaternion of a rotation by \<open>angle\<close> about the axis \<open>a\<close>, normalised.\<close>

definition axis_angle_quat :: "vec3 \<Rightarrow> real \<Rightarrow> quat" where
  "axis_angle_quat a angle =
     \<lparr>qx = sin (angle / 2) * (vx a / np_linalg_norm a),
      qy = sin (angle / 2) * (vy a / np_linalg_norm a),
      qz = sin (angle / 2) * (vz a / np_linalg_norm a),
      qw = cos (angle / 2)\<rparr>"

text \<open>
  An axis component of moderate size: zero, or of magnitude between \<open>2^-250\<close> and
  \<open>2^250\<close>. The squares of such components, their sum and the quotients by the norm stay
  within the range of float64.
\<close>

definition moderate :: "real \<Rightarrow> bool" where
  "moderate c \<longleftrightarrow> c = 0 \<or> (1 / 2 ^ 250 \<le> \<bar>c\<bar> \<and> \<bar>c\<bar> \<le> 2 ^ 250)"

subsection \<open>vector.py: the declared, unimplemented operations\<close>

text \<open>Each body is \<^verbatim>\<open>raise NotImplementedError()\<close>; the arguments are never read.\<close>

definition vector_unproject ::
    "ndarray \<Rightarrow> ndarray \<Rightarrow> real \<Rightarrow> ndarray option \<Rightarrow> dtype option \<Rightarrow> error + ndarray" where
  "vector_unproject vector matrix depth out dtype = Inl NotImplementedError"

definition vector_apply_quaternion_rotation ::
    "ndarray \<Rightarrow> ndarray \<Rightarrow> ndarray option \<Rightarrow> dtype option \<Rightarrow> error + ndarray" where
  "vector_apply_quaternion_rotation vector quaternion out dtype = Inl NotImplementedError"

definition vector_spherical_to_euclidean ::
    "ndarray \<Rightarrow> ndarray option \<Rightarrow> dtype option \<Rightarrow> error + ndarray" where
  "vector_spherical_to_euclidean spherical out dtype = Inl NotImplementedError"

definition vector_distance_between ::
    "ndarray \<Rightarrow> ndarray \<Rightarrow> ndarray option \<Rightarrow> dtype option \<Rightarrow> error + ndarray" where
  "vector_distance_between vector_a vector_b out dtype = Inl NotImplementedError"

definition vector_from_matrix_position ::
    "ndarray \<Rightarrow> ndarray option \<Rightarrow> dtype option \<Rightarrow> error + ndarray" where
  "vector_from_matrix_position homogeneous_matrix out dtype = Inl NotImplementedError"

definition vector_make_spherical_safe ::
    "ndarray \<Rightarrow> ndarray option \<Rightarrow> dtype option \<Rightarrow> error + ndarray" where
  "vector_make_spherical_safe vector out dtype = Inl NotImplementedError"

section \<open>Theorems\<close>

subsection \<open>What the quaternion functions leave in the store\<close>

lemma quat_update_xyz:
  "q\<lparr>qx := a, qy := b, qz := c\<rparr> = \<lparr>qx = a, qy = b, qz = c, qw = qw q\<rparr>"
  by (cases q) simp

lemma quat_update_w: "\<lparr>qx = a, qy = b, qz = c, qw = d\<rparr>\<lparr>qw := e\<rparr> = \<lparr>qx = a, qy = b, qz = c, qw = e\<rparr>"
  by simp

lemma np_asarray_np_empty:
  "allocated h a \<Longrightarrow> np_asarray (snd (np_empty u h)) a = np_asarray h a"
  by (cases a) (auto simp: np_empty_def)

lemma quaternion_multiply_fresh:
  assumes "allocated h a" "allocated h b"
  shows "quaternion_multiply a b None u h =
           (brk h, \<lparr>mem = (mem h)(brk h := hamilton (np_asarray h a) (np_asarray h b)),
                    brk = Suc (brk h)\<rparr>)"
  using assms
  by (cases a; cases b)
     (auto simp: quaternion_multiply_def out_or_empty_def np_empty_def poke_def Let_def
        hamilton_def xyz_of_def vadd_def smul_def np_cross_def np_dot_def quat_update_xyz)

lemma quaternion_multiply_into:
  "quaternion_multiply a b (Some p) u h =
     (p, h\<lparr>mem := (mem h)(p := hamilton (np_asarray h a) (np_asarray h b))\<rparr>)"
  by (cases a; cases b)
     (auto simp: quaternion_multiply_def out_or_empty_def poke_def Let_def
        hamilton_def xyz_of_def vadd_def smul_def np_cross_def np_dot_def quat_update_xyz)

lemma quaternion_inverse_fresh:
  assumes "allocated h q"
  shows "quaternion_inverse q None u h =
           (brk h, \<lparr>mem = (mem h)(brk h := conjugate (np_asarray h q)), brk = Suc (brk h)\<rparr>)"
  using assms
  by (cases q)
     (auto simp: quaternion_inverse_def out_or_empty_def np_empty_def poke_def Let_def conjugate_def quat_update_xyz)

lemma quaternion_inverse_into:
  "quaternion_inverse q (Some p) u h = (p, h\<lparr>mem := (mem h)(p := conjugate (np_asarray h q))\<rparr>)"
  by (cases q)
     (auto simp: quaternion_inverse_def out_or_empty_def poke_def Let_def conjugate_def quat_update_xyz)

lemma quat_norm_eq_1_iff: "quat_norm q = 1 \<longleftrightarrow> (qx q)\<^sup>2 + (qy q)\<^sup>2 + (qz q)\<^sup>2 + (qw q)\<^sup>2 = 1"
  by (simp add: quat_norm_def)

lemma hamilton_conjugate:
  assumes "quat_norm q = 1"
  shows "hamilton (conjugate q) q = identity_quaternion"
  using assms
  by (simp add: quat_norm_eq_1_iff hamilton_def conjugate_def identity_quaternion_def
      power2_eq_square algebra_simps)

lemma quat_norm_hamilton: "quat_norm (hamilton a b) = quat_norm a * quat_norm b"
proof -
  have "(quat_norm (hamilton a b))\<^sup>2 = (quat_norm a * quat_norm b)\<^sup>2"
    by (simp add: quat_norm_def hamilton_def power_mult_distrib)
       (simp add: power2_eq_square algebra_simps)
  moreover have "0 \<le> quat_norm (hamilton a b)" "0 \<le> quat_norm a * quat_norm b"
    by (simp_all add: quat_norm_def)
  ultimately show ?thesis
    by (simp add: power2_eq_iff_nonneg)
qed

lemma quat_norm_conjugate: "quat_norm (conjugate q) = quat_norm q"
  by (simp add: quat_norm_def conjugate_def)

lemma np_linalg_norm_eq_0_iff:
  "np_linalg_norm a = 0 \<longleftrightarrow> a = \<lparr>vx = 0, vy = 0, vz = 0\<rparr>"
proof -
  have "(vx a)\<^sup>2 + (vy a)\<^sup>2 + (vz a)\<^sup>2 = 0 \<longleftrightarrow> vx a = 0 \<and> vy a = 0 \<and> vz a = 0"
    by (simp add: sum_power2_eq_zero_iff add_nonneg_eq_0_iff)
  then show ?thesis
    by (cases a) (simp add: np_linalg_norm_def)
qed

lemma quaternion_make_from_axis_angle_eq:
  "quaternion_make_from_axis_angle axis angle out u h =
     (if asarray_is_same_object axis
      then Ndarray Float64 (vdiv (values_of axis) (np_linalg_norm (values_of axis)))
      else axis,
      fst (out_or_empty out u h),
      (snd (out_or_empty out u h))\<lparr>mem :=
         (mem (snd (out_or_empty out u h)))
           (fst (out_or_empty out u h) := axis_angle_quat (values_of axis) angle)\<rparr>)"
  by (simp add: quaternion_make_from_axis_angle_def Let_def split_beta poke_def
      axis_angle_quat_def smul_def vdiv_def quat_update_xyz)

lemma quat_norm_axis_angle:
  assumes "a \<noteq> \<lparr>vx = 0, vy = 0, vz = 0\<rparr>"
  shows "quat_norm (axis_angle_quat a angle) = 1"
proof -
  let ?n = "np_linalg_norm a"
  have n0: "?n \<noteq> 0" using assms by (simp add: np_linalg_norm_eq_0_iff)
  have n2: "?n\<^sup>2 = (vx a)\<^sup>2 + (vy a)\<^sup>2 + (vz a)\<^sup>2"
    by (simp add: np_linalg_norm_def)
  have "(vx a / ?n)\<^sup>2 + (vy a / ?n)\<^sup>2 + (vz a / ?n)\<^sup>2
          = ((vx a)\<^sup>2 + (vy a)\<^sup>2 + (vz a)\<^sup>2) / ?n\<^sup>2"
    by (simp add: power_divide add_divide_distrib)
  also have "\<dots> = ?n\<^sup>2 / ?n\<^sup>2"
    by (simp only: n2)
  also have "\<dots> = 1" using n0 by simp
  finally have unit: "(vx a / ?n)\<^sup>2 + (vy a / ?n)\<^sup>2 + (vz a / ?n)\<^sup>2 = 1" .
  have "(qx (axis_angle_quat a angle))\<^sup>2 + (qy (axis_angle_quat a angle))\<^sup>2
        + (qz (axis_angle_quat a angle))\<^sup>2 + (qw (axis_angle_quat a angle))\<^sup>2
        = (sin (angle / 2))\<^sup>2 * ((vx a / ?n)\<^sup>2 + (vy a / ?n)\<^sup>2 + (vz a / ?n)\<^sup>2)
          + (cos (angle / 2))\<^sup>2"
    by (simp add: axis_angle_quat_def power_mult_distrib power_divide distrib_left)
  also have "\<dots> = 1" by (simp add: unit)
  finally show ?thesis by (simp add: quat_norm_eq_1_iff)
qed


subsection \<open>Writes into the matrix buffer\<close>

lemma upt_4: "[0..<4] = [0, 1, 2, 3]"
  by (simp add: upt_rec)

lemma length_setitem_ij: "length (setitem_ij dt n i j vals cs) = length cs"
  unfolding setitem_ij_def by (induction n) simp_all

lemma diagonal_fill_Suc:
  "diagonal_fill dt (Suc n) c cs =
     (diagonal_fill dt n c cs)[16 * n := np_cast dt c, 16 * n + 5 := np_cast dt c,
        16 * n + 10 := np_cast dt c, 16 * n + 15 := np_cast dt c]"
  by (simp add: diagonal_fill_def upt_4)

lemma length_diagonal_fill: "length (diagonal_fill dt n c cs) = length cs"
  by (induction n) (simp_all add: diagonal_fill_Suc, simp add: diagonal_fill_def)

lemma length_setitem_all: "length (setitem_all dt c cs) = length cs"
  by (simp add: setitem_all_def)

lemma nth_setitem_all: "idx < length cs \<Longrightarrow> setitem_all dt c cs ! idx = np_cast dt c"
  by (simp add: setitem_all_def)

lemma cell_index:
  fixes k c :: nat
  assumes "c < 16"
  shows "idx = 16 * k + c \<longleftrightarrow> idx mod 16 = c \<and> idx div 16 = k"
  using assms by auto

lemma nth_setitem_ij:
  assumes "4 * i + j < 16" and "idx < length cs"
  shows "setitem_ij dt n i j vals cs ! idx =
           (if idx mod 16 = 4 * i + j \<and> idx div 16 < n then np_cast dt (vals (idx div 16))
            else cs ! idx)"
proof (induction n)
  case 0
  then show ?case by (simp add: setitem_ij_def)
next
  case (Suc n)
  have step: "setitem_ij dt (Suc n) i j vals cs
                = (setitem_ij dt n i j vals cs)[16 * n + 4 * i + j := np_cast dt (vals n)]"
    by (simp add: setitem_ij_def)
  have ix: "idx = 16 * n + (4 * i + j) \<longleftrightarrow> idx mod 16 = 4 * i + j \<and> idx div 16 = n"
    using assms(1) by (rule cell_index)
  have len: "idx < length (setitem_ij dt n i j vals cs)"
    using assms(2) by (simp add: length_setitem_ij)
  show ?case
  proof (cases "idx = 16 * n + (4 * i + j)")
    case True
    then show ?thesis
      using len ix by (simp add: step add.assoc)
  next
    case False
    then have "setitem_ij dt (Suc n) i j vals cs ! idx = setitem_ij dt n i j vals cs ! idx"
      by (simp add: step add.assoc)
    then show ?thesis
      using Suc False ix by (auto simp: less_Suc_eq)
  qed
qed

lemma nth_list_update_any:
  "xs[i := x] ! j = (if i = j \<and> j < length xs then x else xs ! j)"
  by (cases "i < length xs") (auto simp: nth_list_update list_update_beyond)

lemma nth_update4:
  assumes "idx < length xs"
  shows "xs[a := v, b := v, c := v, d := v] ! idx
           = (if idx = a \<or> idx = b \<or> idx = c \<or> idx = d then v else xs ! idx)"
  using assms by (simp add: nth_list_update_any)

lemma nth_diagonal_fill:
  assumes "idx < length cs"
  shows "diagonal_fill dt n c cs ! idx =
           (if idx mod 16 \<in> {0, 5, 10, 15} \<and> idx div 16 < n then np_cast dt c else cs ! idx)"
proof (induction n)
  case 0
  then show ?case by (simp add: diagonal_fill_def)
next
  case (Suc n)
  have i0: "idx = 16 * n \<longleftrightarrow> idx mod 16 = 0 \<and> idx div 16 = n"
    using cell_index [of 0 idx n] by simp
  have i5: "idx = 16 * n + 5 \<longleftrightarrow> idx mod 16 = 5 \<and> idx div 16 = n"
    by (rule cell_index) simp
  have i10: "idx = 16 * n + 10 \<longleftrightarrow> idx mod 16 = 10 \<and> idx div 16 = n"
    by (rule cell_index) simp
  have i15: "idx = 16 * n + 15 \<longleftrightarrow> idx mod 16 = 15 \<and> idx div 16 = n"
    by (rule cell_index) simp
  have len: "idx < length (diagonal_fill dt n c cs)"
    using assms by (simp add: length_diagonal_fill)
  have "diagonal_fill dt (Suc n) c cs ! idx
          = (if idx = 16 * n \<or> idx = 16 * n + 5 \<or> idx = 16 * n + 10 \<or> idx = 16 * n + 15
             then np_cast dt c else diagonal_fill dt n c cs ! idx)"
    unfolding diagonal_fill_Suc by (rule nth_update4 [OF len])
  also have "\<dots> = (if idx mod 16 \<in> {0, 5, 10, 15} \<and> idx div 16 = n then np_cast dt c
                     else diagonal_fill dt n c cs ! idx)"
    unfolding i0 i5 i10 i15 by simp
  also have "\<dots> = (if idx mod 16 \<in> {0, 5, 10, 15} \<and> idx div 16 < Suc n then np_cast dt c
                     else cs ! idx)"
    unfolding Suc by (simp add: less_Suc_eq)
  finally show ?case .
qed

lemma nth_setitem_all_cell:
  "16 * k + c < length cs \<Longrightarrow> setitem_all dt v cs ! (16 * k + c) = np_cast dt v"
  by (rule nth_setitem_all)

lemma nth_diagonal_fill_cell:
  assumes "c < 16" and "16 * k + c < length cs"
  shows "diagonal_fill dt n v cs ! (16 * k + c) =
           (if c \<in> {0, 5, 10, 15} \<and> k < n then np_cast dt v else cs ! (16 * k + c))"
  using assms(1) by (simp add: nth_diagonal_fill [OF assms(2)])

lemma nth_setitem_ij_cell:
  assumes "4 * i + j < 16" and "c < 16" and "16 * k + c < length cs"
  shows "setitem_ij dt n i j vals cs ! (16 * k + c) =
           (if c = 4 * i + j \<and> k < n then np_cast dt (vals k) else cs ! (16 * k + c))"
  using assms(2) by (simp add: nth_setitem_ij [OF assms(1) assms(3)])

lemma rotation_block_cell:
  assumes "length cs0 = 16 * n" and "k < n" and "c < 16"
  shows "setitem_ij dt n 2 2 f22 (setitem_ij dt n 1 2 f12 (setitem_ij dt n 0 2 f02
           (setitem_ij dt n 2 1 f21 (setitem_ij dt n 1 1 f11 (setitem_ij dt n 0 1 f01
           (setitem_ij dt n 2 0 f20 (setitem_ij dt n 1 0 f10 (setitem_ij dt n 0 0 f00
           (diagonal_fill dt n 1 (setitem_all dt 0 cs0)))))))))) ! (16 * k + c)
         = (if c = 10 then np_cast dt (f22 k) else if c = 6 then np_cast dt (f12 k)
            else if c = 2 then np_cast dt (f02 k) else if c = 9 then np_cast dt (f21 k)
            else if c = 5 then np_cast dt (f11 k) else if c = 1 then np_cast dt (f01 k)
            else if c = 8 then np_cast dt (f20 k) else if c = 4 then np_cast dt (f10 k)
            else if c = 0 then np_cast dt (f00 k) else if c = 15 then np_cast dt 1
            else np_cast dt 0)"
proof -
  have len: "16 * k + c < 16 * n"
    using assms(2,3) by simp
  show ?thesis
    using assms(2,3) len
    by (simp add: assms(1) length_setitem_ij length_diagonal_fill length_setitem_all
        nth_setitem_ij_cell nth_diagonal_fill_cell nth_setitem_all_cell)
qed

subsection \<open>C1: the matrix of a quaternion\<close>

text \<open>
  For every quaternion array, of any batch shape and either element type,
  \<open>quaternion_to_matrix\<close> returns an array of shape \<open>(*batch, 4, 4)\<close> in which the matrix
  of every batch element \<open>k\<close> (counted in C order) has the rows of the closed form for that
  element's \<open>(x, y, z, w)\<close>, computed in the element type of the input, and \<open>[0, 0, 0, 1]\<close>
  as fourth row and fourth column. All matrices lie in the one result buffer; it is the
  freshly allocated float64 array, whatever it held, or a float64 array the caller
  supplies.
\<close>

lemma quaternion_to_matrix_rows:
  assumes "shape q = bs @ [4]"
    and "length (cells q) = prod_list (shape q)"
    and "result_dtype out dtype = Float64"
    and "k < prod_list bs"
  shows "\<exists>r. quaternion_to_matrix q out dtype u = Inr r
           \<and> dtype_of r = Float64
           \<and> shape r = bs @ [4, 4]
           \<and> length (cells r) = 16 * prod_list bs
           \<and> map (matrix_row r k) [0, 1, 2, 3]
               = (case dtype_of q of
                    Float64 \<Rightarrow>
                      spec_matrix_rows (cells q ! (4 * k)) (cells q ! (4 * k + 1))
                        (cells q ! (4 * k + 2)) (cells q ! (4 * k + 3))
                  | Int64 \<Rightarrow>
                      int64_matrix_rows (cells q ! (4 * k)) (cells q ! (4 * k + 1))
                        (cells q ! (4 * k + 2)) (cells q ! (4 * k + 3)))"
proof -
  let ?n = "prod_list bs"
  let ?cs0 = "map (case out of None \<Rightarrow> u | Some b \<Rightarrow> snd b) [0..<16 * ?n]"
  have l0: "length ?cs0 = 16 * ?n" by simp
  note cell = rotation_block_cell [OF l0 assms(4), where dt = Float64]
  note cells16 =
    cell [of 0, simplified] cell [of 1, simplified] cell [of 2, simplified]
    cell [of 3, simplified] cell [of 4, simplified] cell [of 5, simplified]
    cell [of 6, simplified] cell [of 7, simplified] cell [of 8, simplified]
    cell [of 9, simplified] cell [of 10, simplified] cell [of 11, simplified]
    cell [of 12, simplified] cell [of 13, simplified] cell [of 14, simplified]
    cell [of 15, simplified]
  show ?thesis
  proof (cases "dtype_of q")
    case Float64
    then show ?thesis
      by (simp add: quaternion_to_matrix_def Let_def assms(1,3) matrix_row_def
          spec_matrix_rows_def getitem_last_def length_setitem_ij length_diagonal_fill
          length_setitem_all cells16 np_cast_def np_multiply_def np_add_def
          np_subtract_def)
  next
    case Int64
    then show ?thesis
      by (simp add: quaternion_to_matrix_def Let_def assms(1,3) matrix_row_def
          int64_matrix_rows_def getitem_last_def length_setitem_ij length_diagonal_fill
          length_setitem_all cells16 np_cast_def)
  qed
qed

text \<open>
  C1. \<open>quaternion_to_matrix\<close> returns, in a float64 result and for every batch shape, the
  matrix whose upper-left block has the rows the specification gives and whose fourth
  row and fourth column are \<open>[0, 0, 0, 1]\<close>, for every batch element of a float64 input
  whose components are at most \<open>2^500\<close> in magnitude: no product or sum of the closed form
  then leaves the range of float64, and the cells are the real values of the expressions,
  up to rounding. For an int64 input the cells are the same expressions evaluated in
  int64, where every product, sum and difference wraps around modulo \<open>2^64\<close>.
\<close>

theorem quaternion_to_matrix_entries:
  assumes "shape q = bs @ [4]"
    and "length (cells q) = prod_list (shape q)"
    and "result_dtype out dtype = Float64"
    and "k < prod_list bs"
    and "dtype_of q = Int64
         \<or> (\<bar>cells q ! (4 * k)\<bar> \<le> 2 ^ 500 \<and> \<bar>cells q ! (4 * k + 1)\<bar> \<le> 2 ^ 500
            \<and> \<bar>cells q ! (4 * k + 2)\<bar> \<le> 2 ^ 500 \<and> \<bar>cells q ! (4 * k + 3)\<bar> \<le> 2 ^ 500)"
  shows "\<exists>r. quaternion_to_matrix q out dtype u = Inr r
           \<and> dtype_of r = Float64
           \<and> shape r = bs @ [4, 4]
           \<and> length (cells r) = 16 * prod_list bs
           \<and> map (matrix_row r k) [0, 1, 2, 3]
               = (case dtype_of q of
                    Float64 \<Rightarrow>
                      spec_matrix_rows (cells q ! (4 * k)) (cells q ! (4 * k + 1))
                        (cells q ! (4 * k + 2)) (cells q ! (4 * k + 3))
                  | Int64 \<Rightarrow>
                      int64_matrix_rows (cells q ! (4 * k)) (cells q ! (4 * k + 1))
                        (cells q ! (4 * k + 2)) (cells q ! (4 * k + 3)))"
  by (rule quaternion_to_matrix_rows [OF assms(1-4)])

theorem quaternion_to_matrix_entries_witness:
  "shape \<lparr>dtype_of = Float64, shape = [2, 4], cells = [0, 0, 0, 1, 1, 0, 0, 0]\<rparr> = [2] @ [4]
   \<and> length (cells \<lparr>dtype_of = Float64, shape = [2, 4], cells = [0, 0, 0, 1, 1, 0, 0, 0]\<rparr>)
       = prod_list (shape \<lparr>dtype_of = Float64, shape = [2, 4], cells = [0, 0, 0, 1, 1, 0, 0, 0]\<rparr>)
   \<and> result_dtype None None = Float64
   \<and> (1 :: nat) < prod_list [2]
   \<and> \<bar>[0, 0, 0, 1, 1, 0, 0, 0 :: real] ! (4 * 1)\<bar> \<le> 2 ^ 500
   \<and> \<bar>[0, 0, 0, 1, 1, 0, 0, 0 :: real] ! (4 * 1 + 1)\<bar> \<le> 2 ^ 500
   \<and> \<bar>[0, 0, 0, 1, 1, 0, 0, 0 :: real] ! (4 * 1 + 2)\<bar> \<le> 2 ^ 500
   \<and> \<bar>[0, 0, 0, 1, 1, 0, 0, 0 :: real] ! (4 * 1 + 3)\<bar> \<le> 2 ^ 500
   \<and> (\<exists>r. quaternion_to_matrix
              \<lparr>dtype_of = Float64, shape = [2, 4], cells = [0, 0, 0, 1, 1, 0, 0, 0]\<rparr>
              None None (\<lambda>_. 7) = Inr r
          \<and> shape r = [2, 4, 4]
          \<and> map (matrix_row r 1) [0, 1, 2, 3]
              = [[1, 0, 0, 0], [0, - 1, 0, 0], [0, 0, - 1, 0], [0, 0, 0, 1]])"
proof -
  let ?cs = "[0, 0, 0, 1, 1, 0, 0, 0 :: real]"
  let ?q = "\<lparr>dtype_of = Float64, shape = [2, 4], cells = ?cs\<rparr>"
  have s: "shape ?q = [2] @ [4]" by simp
  have l: "length (cells ?q) = prod_list (shape ?q)" by simp
  have d: "result_dtype None None = Float64" by (simp add: result_dtype_def)
  have k: "(1 :: nat) < prod_list [2]" by simp
  have b: "\<bar>?cs ! (4 * 1)\<bar> \<le> 2 ^ 500 \<and> \<bar>?cs ! (4 * 1 + 1)\<bar> \<le> 2 ^ 500
           \<and> \<bar>?cs ! (4 * 1 + 2)\<bar> \<le> 2 ^ 500 \<and> \<bar>?cs ! (4 * 1 + 3)\<bar> \<le> 2 ^ 500"
    by simp
  have b': "dtype_of ?q = Int64
         \<or> (\<bar>cells ?q ! (4 * 1)\<bar> \<le> 2 ^ 500 \<and> \<bar>cells ?q ! (4 * 1 + 1)\<bar> \<le> 2 ^ 500
            \<and> \<bar>cells ?q ! (4 * 1 + 2)\<bar> \<le> 2 ^ 500 \<and> \<bar>cells ?q ! (4 * 1 + 3)\<bar> \<le> 2 ^ 500)"
    using b by simp
  show ?thesis
    using s l d k b quaternion_to_matrix_entries [OF s l d k b', of "\<lambda>_. 7"]
    by (auto simp: spec_matrix_rows_def)
qed

text \<open>
  Not for every input are the cells the real values of the closed form: an int64 input
  is multiplied in int64. For \<open>q = [2^32, 0, 0, 0]\<close> the product \<open>x * x2 = 2^65\<close> wraps to
  \<open>0\<close>, and the result is the identity matrix, where the closed form has \<open>1 - 2^65\<close> on
  the diagonal.
\<close>

theorem quaternion_to_matrix_int64_counterexample:
  "\<exists>r. quaternion_to_matrix
          \<lparr>dtype_of = Int64, shape = [4], cells = [4294967296, 0, 0, 0]\<rparr> None None (\<lambda>_. 0)
          = Inr r
       \<and> map (matrix_row r 0) [0, 1, 2, 3]
           = [[1, 0, 0, 0], [0, 1, 0, 0], [0, 0, 1, 0], [0, 0, 0, 1]]
       \<and> map (matrix_row r 0) [0, 1, 2, 3] \<noteq> spec_matrix_rows 4294967296 0 0 0
       \<and> spec_matrix_rows 4294967296 0 0 0
           = [[1, 0, 0, 0], [0, - 36893488147419103231, 0, 0],
              [0, 0, - 36893488147419103231, 0], [0, 0, 0, 1]]"
proof -
  let ?q = "\<lparr>dtype_of = Int64, shape = [4], cells = [4294967296, 0, 0, 0]\<rparr>"
  have s: "shape ?q = [] @ [4]" by simp
  have l: "length (cells ?q) = prod_list (shape ?q)" by simp
  have d: "result_dtype None None = Float64" by (simp add: result_dtype_def)
  have k: "(0 :: nat) < prod_list []" by simp
  show ?thesis
    using quaternion_to_matrix_rows [OF s l d k, of "\<lambda>_. 0"]
    by (auto simp: spec_matrix_rows_def int64_matrix_rows_def np_multiply_def np_add_def
        np_subtract_def wrap_int64_def)
qed

subsection \<open>C7: the inverse of a unit quaternion\<close>

text \<open>
  C7. For every unit quaternion \<open>q\<close> (Euclidean norm 1),
  \<open>quaternion_multiply(quaternion_inverse(q), q)\<close> is the identity quaternion
  \<open>(0, 0, 0, 1)\<close>; \<open>quaternion_inverse\<close> negates the vector part and keeps the scalar
  part (lemma \<open>quaternion_inverse_fresh\<close>). Both calls allocate their result.
\<close>

theorem inverse_multiply_identity:
  assumes "allocated h q" and "quat_norm (np_asarray h q) = 1"
  shows "(let (p, h1) = quaternion_inverse q None u h;
              (r, h2) = quaternion_multiply (Ref p) q None u' h1
          in mem h2 r) = identity_quaternion"
proof -
  let ?h1 = "\<lparr>mem = (mem h)(brk h := conjugate (np_asarray h q)), brk = Suc (brk h)\<rparr>"
  have inv: "quaternion_inverse q None u h = (brk h, ?h1)"
    using assms(1) by (rule quaternion_inverse_fresh)
  have al: "allocated ?h1 (Ref (brk h))" "allocated ?h1 q"
    using assms(1) by (cases q; simp)+
  have rd: "np_asarray ?h1 q = np_asarray h q"
    using assms(1) by (cases q) auto
  show ?thesis
    unfolding inv
    by (simp add: quaternion_multiply_fresh [OF al] rd hamilton_conjugate [OF assms(2)])
qed

theorem inverse_multiply_identity_witness:
  "allocated \<lparr>mem = (\<lambda>_. \<lparr>qx = 3/5, qy = 0, qz = 4/5, qw = 0\<rparr>), brk = 1\<rparr> (Ref 0)
   \<and> quat_norm (np_asarray \<lparr>mem = (\<lambda>_. \<lparr>qx = 3/5, qy = 0, qz = 4/5, qw = 0\<rparr>), brk = 1\<rparr> (Ref 0)) = 1
   \<and> (let (p, h1) = quaternion_inverse (Ref 0) None identity_quaternion
                       \<lparr>mem = (\<lambda>_. \<lparr>qx = 3/5, qy = 0, qz = 4/5, qw = 0\<rparr>), brk = 1\<rparr>;
            (r, h2) = quaternion_multiply (Ref p) (Ref 0) None identity_quaternion h1
        in mem h2 r) = identity_quaternion"
proof -
  let ?h = "\<lparr>mem = (\<lambda>_. \<lparr>qx = 3/5, qy = 0, qz = 4/5, qw = 0\<rparr>), brk = 1\<rparr>"
  have a: "allocated ?h (Ref 0)" by simp
  have n: "quat_norm (np_asarray ?h (Ref 0)) = 1"
    by (simp add: quat_norm_def power2_eq_square)
  show ?thesis
    using a n inverse_multiply_identity [OF a n, of identity_quaternion identity_quaternion]
    by simp
qed


subsection \<open>The loop of the Euler-angle composition\<close>

lemma py_isupper_letters:
  "py_isupper CHR ''X''" "py_isupper CHR ''Y''" "py_isupper CHR ''Z''"
  "\<not> py_isupper CHR ''x''" "\<not> py_isupper CHR ''y''" "\<not> py_isupper CHR ''z''"
  by (simp_all add: py_isupper_def)

lemma axis_index_letters:
  "axis_index CHR ''X'' = Inr 0" "axis_index CHR ''Y'' = Inr 1" "axis_index CHR ''Z'' = Inr 2"
  "axis_index CHR ''x'' = Inr 0" "axis_index CHR ''y'' = Inr 1" "axis_index CHR ''z'' = Inr 2"
  by (simp_all add: axis_index_def py_upper_def char_of_def bit_0)

lemma py_isupper_axis_letter:
  "c \<in> axis_letters \<Longrightarrow> py_isupper c \<longleftrightarrow> c = CHR ''X'' \<or> c = CHR ''Y'' \<or> c = CHR ''Z''"
  by (auto simp: axis_letters_def py_isupper_letters)

lemma elementary_set_slot:
  assumes "c \<in> axis_letters" and "axis_index c = Inr i"
  shows "set_slot i (sin (a / 2)) \<lparr>qx = 0, qy = 0, qz = 0, qw = cos (a / 2)\<rparr> = elementary c a"
  using assms by (auto simp: axis_letters_def axis_index_letters set_slot_def elementary_def)

lemma axis_indices_letters:
  "set order \<subseteq> axis_letters \<Longrightarrow>
     \<exists>slots. axis_indices order = Inr slots \<and> length slots = length order
       \<and> (\<forall>i < length order. axis_index (order ! i) = Inr (slots ! i))"
proof (induction order)
  case Nil
  then show ?case by simp
next
  case (Cons c cs)
  then obtain slots where s: "axis_indices cs = Inr slots" "length slots = length cs"
      "\<forall>i < length cs. axis_index (cs ! i) = Inr (slots ! i)"
    by auto
  from Cons.prems have "c \<in> axis_letters" by simp
  then obtain i where i: "axis_index c = Inr i"
    by (auto simp: axis_letters_def axis_index_letters)
  have "axis_indices (c # cs) = Inr (i # slots)"
    by (simp add: s(1) i)
  moreover have "\<forall>j < length (c # cs). axis_index ((c # cs) ! j) = Inr ((i # slots) ! j)"
    using s(3) i by (auto simp: nth_Cons split: nat.splits)
  ultimately show ?case using s(2) by auto
qed

lemma heap_fold_out:
  "fold (\<lambda>idx h'. h'\<lparr>mem := (mem h')(out := g idx (mem h' out))\<rparr>) idxs h
   = h\<lparr>mem := (mem h)(out := fold g idxs (mem h out))\<rparr>"
  by (induction idxs arbitrary: h) simp_all

lemma euler_loop:
  "fold (\<lambda>idx h'. snd (if es ! idx
                       then quaternion_multiply (Ref out) (Lit (qs ! idx)) (Some out) u h'
                       else quaternion_multiply (Lit (qs ! idx)) (Ref out) (Some out) u h'))
        idxs h
   = h\<lparr>mem := (mem h)(out :=
        fold (\<lambda>idx acc. if es ! idx then hamilton acc (qs ! idx) else hamilton (qs ! idx) acc)
          idxs (mem h out))\<rparr>"
proof -
  have step: "(\<lambda>idx h'. snd (if es ! idx
                       then quaternion_multiply (Ref out) (Lit (qs ! idx)) (Some out) u h'
                       else quaternion_multiply (Lit (qs ! idx)) (Ref out) (Some out) u h'))
      = (\<lambda>idx h'. h'\<lparr>mem := (mem h')(out :=
           (\<lambda>idx acc. if es ! idx then hamilton acc (qs ! idx) else hamilton (qs ! idx) acc)
             idx (mem h' out))\<rparr>)"
    by (intro ext) (simp add: quaternion_multiply_into)
  show ?thesis
    unfolding step by (rule heap_fold_out)
qed

lemma euler_fold_indices:
  assumes "length as = length order" and "set order \<subseteq> axis_letters" and "k \<le> length order"
  shows "fold (\<lambda>idx acc. if map py_isupper order ! idx
                         then hamilton acc (map2 elementary order as ! idx)
                         else hamilton (map2 elementary order as ! idx) acc)
           [k..<length order] acc
         = euler_fold acc (drop k (zip order as))"
  using assms(3)
proof (induction "length order - k" arbitrary: k acc)
  case 0
  then show ?case using assms(1) by simp
next
  case (Suc d)
  then have k: "k < length order" by simp
  have letter: "order ! k \<in> axis_letters"
    using assms(2) k by auto
  have up: "[k..<length order] = k # [Suc k..<length order]"
    using k by (simp add: upt_conv_Cons)
  have dr: "drop k (zip order as) = (order ! k, as ! k) # drop (Suc k) (zip order as)"
    using k assms(1) by (simp add: Cons_nth_drop_Suc [symmetric])
  have ih: "\<And>acc. fold (\<lambda>idx acc. if map py_isupper order ! idx
                         then hamilton acc (map2 elementary order as ! idx)
                         else hamilton (map2 elementary order as ! idx) acc)
           [Suc k..<length order] acc
         = euler_fold acc (drop (Suc k) (zip order as))"
    using Suc.hyps(1) [of "Suc k"] Suc.hyps(2) k by simp
  show ?case
    unfolding up dr
    using k assms(1) by (simp add: ih py_isupper_axis_letter [OF letter])
qed

lemma broadcast_to_length_map:
  assumes "length angles = n \<or> length angles = 1"
  shows "broadcast_to_length (map f angles) n
           = Inr (map f (if length angles = n then angles else replicate n (hd angles)))"
  using assms by (cases angles) (auto simp: broadcast_to_length_def)

lemma euler_rows:
  assumes "set order \<subseteq> axis_letters" and "length as = length order"
    and "length slots = length order"
    and "\<forall>i < length order. axis_index (order ! i) = Inr (slots ! i)"
  shows "map2 (\<lambda>q (i, s). set_slot i s q)
           (map2 (\<lambda>q c. q\<lparr>qw := c\<rparr>)
              (replicate (length order) \<lparr>qx = 0, qy = 0, qz = 0, qw = 0\<rparr>)
              (map (\<lambda>a. cos (a / 2)) as))
           (zip slots (map (\<lambda>a. sin (a / 2)) as))
         = map2 elementary order as"
proof (rule nth_equalityI)
  show "length (map2 (\<lambda>q (i, s). set_slot i s q)
           (map2 (\<lambda>q c. q\<lparr>qw := c\<rparr>)
              (replicate (length order) \<lparr>qx = 0, qy = 0, qz = 0, qw = 0\<rparr>)
              (map (\<lambda>a. cos (a / 2)) as))
           (zip slots (map (\<lambda>a. sin (a / 2)) as)))
        = length (map2 elementary order as)"
    using assms(2,3) by simp
next
  fix i
  assume "i < length (map2 (\<lambda>q (i, s). set_slot i s q)
           (map2 (\<lambda>q c. q\<lparr>qw := c\<rparr>)
              (replicate (length order) \<lparr>qx = 0, qy = 0, qz = 0, qw = 0\<rparr>)
              (map (\<lambda>a. cos (a / 2)) as))
           (zip slots (map (\<lambda>a. sin (a / 2)) as)))"
  then have i: "i < length order"
    using assms(2,3) by simp
  then have letter: "order ! i \<in> axis_letters" and slot: "axis_index (order ! i) = Inr (slots ! i)"
    using assms(1,4) by auto
  show "map2 (\<lambda>q (i, s). set_slot i s q)
           (map2 (\<lambda>q c. q\<lparr>qw := c\<rparr>)
              (replicate (length order) \<lparr>qx = 0, qy = 0, qz = 0, qw = 0\<rparr>)
              (map (\<lambda>a. cos (a / 2)) as))
           (zip slots (map (\<lambda>a. sin (a / 2)) as)) ! i
        = map2 elementary order as ! i"
    using i assms(2,3)
    by (simp add: elementary_set_slot [OF letter slot])
qed

lemma euler_angles_defined:
  assumes "set order \<subseteq> axis_letters" and "order \<noteq> []"
    and "length order = 1 \<or> length angles = length order \<or> length angles = 1"
  shows "quaternion_make_from_euler_angles angles order u h =
           (if length order = 1
            then Inr (QuatRows (map (elementary (hd order)) angles), h)
            else Inr (OneQuat (brk h),
                      \<lparr>mem = (mem h)(brk h :=
                         euler_spec order
                           (if length angles = length order then angles
                            else replicate (length order) (hd angles))),
                       brk = Suc (brk h)\<rparr>))"
proof -
  obtain slots where slots: "axis_indices order = Inr slots" "length slots = length order"
      "\<forall>i < length order. axis_index (order ! i) = Inr (slots ! i)"
    using axis_indices_letters [OF assms(1)] by blast
  show ?thesis
  proof (cases "length order = 1")
    case True
    have letter: "order ! 0 \<in> axis_letters" and slot: "axis_index (order ! 0) = Inr (slots ! 0)"
      using assms(1) slots(3) True by auto
    have hd: "hd order = order ! 0"
      using assms(2) by (simp add: hd_conv_nth)
    show ?thesis
      using True
      by (simp add: quaternion_make_from_euler_angles_def Let_def slots(1) hd
          elementary_set_slot [OF letter slot])
  next
    case False
    let ?n = "length order"
    define as where "as = (if length angles = ?n then angles else replicate ?n (hd angles))"
    have n: "1 < ?n"
      using False assms(2) by (cases order) auto
    have len: "length angles = ?n \<or> length angles = 1"
      using assms(3) False by simp
    have las: "length as = ?n"
      by (simp add: as_def)
    have bc: "\<And>f. broadcast_to_length (map f angles) ?n = Inr (map f as)"
      unfolding as_def by (rule broadcast_to_length_map [OF len])
    let ?qs = "map2 elementary order as"
    have rows: "map2 (\<lambda>q (i, s). set_slot i s q)
           (map2 (\<lambda>q c. q\<lparr>qw := c\<rparr>)
              (replicate ?n \<lparr>qx = 0, qy = 0, qz = 0, qw = 0\<rparr>)
              (map (\<lambda>a. cos (a / 2)) as))
           (zip slots (map (\<lambda>a. sin (a / 2)) as)) = ?qs"
      using assms(1) las slots(2,3) by (rule euler_rows)
    have q0: "?qs ! 0 = elementary (hd order) (hd as)"
      using n las assms(2) by (cases order; cases as) auto
    have loop: "fold (\<lambda>idx acc. if map py_isupper order ! idx
                         then hamilton acc (?qs ! idx) else hamilton (?qs ! idx) acc)
                  [1..<?n] (elementary (hd order) (hd as))
                = euler_spec order as"
      unfolding euler_spec_def
      using euler_fold_indices [OF las assms(1), of 1] n by (simp add: drop_Suc)
    let ?raw = "map2 (\<lambda>q (i, s). set_slot i s q)
           (map2 (\<lambda>q c. q\<lparr>qw := c\<rparr>)
              (replicate ?n \<lparr>qx = 0, qy = 0, qz = 0, qw = 0\<rparr>)
              (map (\<lambda>a. cos (a / 2)) as))
           (zip slots (map (\<lambda>a. sin (a / 2)) as))"
    have "quaternion_make_from_euler_angles angles order u h =
            Inr (OneQuat (brk h),
                 \<lparr>mem = (mem h)(brk h :=
                    fold (\<lambda>idx acc. if map py_isupper order ! idx
                            then hamilton acc (?raw ! idx) else hamilton (?raw ! idx) acc)
                      [1..<?n] (?raw ! 0)),
                  brk = Suc (brk h)\<rparr>)"
      using n
      by (simp add: quaternion_make_from_euler_angles_def Let_def slots(1) np_empty_def
          bc euler_loop poke_def del: One_nat_def)
    also have "\<dots> = Inr (OneQuat (brk h),
                 \<lparr>mem = (mem h)(brk h := euler_spec order as), brk = Suc (brk h)\<rparr>)"
      by (simp only: rows q0 loop)
    finally have "quaternion_make_from_euler_angles angles order u h =
            Inr (OneQuat (brk h),
                 \<lparr>mem = (mem h)(brk h := euler_spec order as), brk = Suc (brk h)\<rparr>)" .
    then show ?thesis
      using False by (simp add: as_def)
  qed
qed

lemma euler_angles_empty_order:
  "quaternion_make_from_euler_angles angles [] u h = Inl IndexError"
  by (simp add: quaternion_make_from_euler_angles_def)

lemma euler_angles_other_length:
  assumes "set order \<subseteq> axis_letters" and "1 < length order"
    and "length angles \<noteq> length order" and "length angles \<noteq> 1"
  shows "quaternion_make_from_euler_angles angles order u h = Inl ValueError"
proof -
  obtain slots where slots: "axis_indices order = Inr slots"
    using axis_indices_letters [OF assms(1)] by blast
  show ?thesis
    using assms(2,3,4)
    by (simp add: quaternion_make_from_euler_angles_def Let_def slots np_empty_def
        broadcast_to_length_def del: One_nat_def)
qed

subsection \<open>C2: the fold over Euler angles\<close>

text \<open>
  C2, as the code has it. For every order string over the letters X, Y, Z in either case
  and every one-dimensional angles array:
  \<^item> the empty order raises IndexError;
  \<^item> with one letter, the result is the batch holding, for every angle, the elementary
    quaternion of that letter;
  \<^item> with \<open>n > 1\<close> letters and \<open>n\<close> angles, or one angle, which then serves every
    letter, the result is the fold of the specification: the elementary quaternion of
    the first letter is the accumulator, and every later letter gives
    \<open>accumulator * next\<close> if it is uppercase and \<open>next * accumulator\<close> otherwise;
  \<^item> with \<open>n > 1\<close> letters and any other number of angles, the call raises ValueError.
  The products are computed with \<^verbatim>\<open>out\<close> as operand and destination at once.
\<close>

theorem euler_angles_fold:
  assumes "set order \<subseteq> axis_letters"
  shows "quaternion_make_from_euler_angles angles order u h =
           (if order = [] then Inl IndexError
            else if length order = 1
            then Inr (QuatRows (map (elementary (hd order)) angles), h)
            else if length angles = length order \<or> length angles = 1
            then Inr (OneQuat (brk h),
                      \<lparr>mem = (mem h)(brk h :=
                         euler_spec order
                           (if length angles = length order then angles
                            else replicate (length order) (hd angles))),
                       brk = Suc (brk h)\<rparr>)
            else Inl ValueError)"
proof (cases "order = []")
  case True
  then show ?thesis by (simp add: euler_angles_empty_order)
next
  case False
  show ?thesis
  proof (cases "length order = 1 \<or> length angles = length order \<or> length angles = 1")
    case True
    show ?thesis
      using euler_angles_defined [OF assms False True, of u h] False True by auto
  next
    case other: False
    have n: "1 < length order"
      using False other by (cases order) auto
    show ?thesis
      using euler_angles_other_length [OF assms n, of angles u h] False other by simp
  qed
qed

theorem euler_angles_fold_witness:
  "set ''Xy'' \<subseteq> axis_letters
   \<and> quaternion_make_from_euler_angles [pi, pi] ''Xy'' identity_quaternion
         \<lparr>mem = (\<lambda>_. identity_quaternion), brk = 0\<rparr>
       = Inr (OneQuat 0,
              \<lparr>mem = (\<lambda>_. identity_quaternion)(0 := \<lparr>qx = 0, qy = 0, qz = - 1, qw = 0\<rparr>),
               brk = 1\<rparr>)"
proof -
  have a: "set ''Xy'' \<subseteq> axis_letters" by (simp add: axis_letters_def)
  show ?thesis
    using a euler_angles_fold [OF a, of "[pi, pi]" identity_quaternion
        "\<lparr>mem = (\<lambda>_. identity_quaternion), brk = 0\<rparr>"]
    by (simp add: euler_spec_def elementary_def hamilton_def)
qed

text \<open>
  The claim quantifies over every angles array and every order string. Three angles
  with two letters do not broadcast, and the empty order has no first quaternion.
\<close>

theorem euler_angles_fold_counterexample:
  "quaternion_make_from_euler_angles [0, 0, 0] ''XY'' identity_quaternion
     \<lparr>mem = (\<lambda>_. identity_quaternion), brk = 0\<rparr> = Inl ValueError
   \<and> quaternion_make_from_euler_angles [0, 0, 0] [] identity_quaternion
       \<lparr>mem = (\<lambda>_. identity_quaternion), brk = 0\<rparr> = Inl IndexError"
  by (simp add: quaternion_make_from_euler_angles_def Let_def np_empty_def
      broadcast_to_length_def axis_index_letters)

subsection \<open>C3: the replacement axis for parallel vectors\<close>

lemma fallback_axis_eq:
  "fallback_axis source fb =
     (if vz source = 0 then \<lparr>vx = 0, vy = 0, vz = 1\<rparr>
      else if vy source = 0 then \<lparr>vx = 0, vy = 1, vz = 0\<rparr>
      else \<lparr>vx = 0, vy = - vz source, vz = vy source\<rparr>)"
  by (simp add: fallback_axis_def Let_def)

text \<open>
  C3, as the code has it. For parallel \<open>source\<close> and \<open>target\<close> (cross product of norm
  0) the replacement axis is chosen by this priority: if \<open>source.z = 0\<close> it is
  \<open>(0, 0, 1)\<close>; else if \<open>source.y = 0\<close> it is \<open>(0, 1, 0)\<close>; else it is
  \<open>(0, -source.z, source.y)\<close>. The assignment for \<open>z = 0\<close> comes after the one for
  \<open>y = 0\<close> and overwrites it, so when both are 0 the axis is \<open>(0, 0, 1)\<close>. The result
  is the axis-angle quaternion of that axis, normalised, and of the angle
  \<open>arctan2(0, source \<cdot> target)\<close>.
\<close>

theorem parallel_replacement_axis:
  assumes "np_linalg_norm (np_cross source target) = 0"
  shows "fallback_axis source fb =
           (if vz source = 0 then \<lparr>vx = 0, vy = 0, vz = 1\<rparr>
            else if vy source = 0 then \<lparr>vx = 0, vy = 1, vz = 0\<rparr>
            else \<lparr>vx = 0, vy = - vz source, vz = vy source\<rparr>)
       \<and> quaternion_make_from_unit_vectors source target out u fb h =
           (let (p, h0) = out_or_empty out u h
            in (p, h0\<lparr>mem := (mem h0)(p :=
                  axis_angle_quat (fallback_axis source fb)
                    (np_arctan2 0 (np_dot source target)))\<rparr>))"
  using assms
  by (simp add: fallback_axis_eq quaternion_make_from_unit_vectors_def Let_def split_beta
      quaternion_make_from_axis_angle_eq out_or_empty_def)

theorem parallel_replacement_axis_witness:
  "np_linalg_norm (np_cross \<lparr>vx = 1, vy = 0, vz = 0\<rparr> \<lparr>vx = - 1, vy = 0, vz = 0\<rparr>) = 0
   \<and> fallback_axis \<lparr>vx = 1, vy = 0, vz = 0\<rparr> \<lparr>vx = 7, vy = 7, vz = 7\<rparr> = \<lparr>vx = 0, vy = 0, vz = 1\<rparr>
   \<and> quaternion_make_from_unit_vectors \<lparr>vx = 1, vy = 0, vz = 0\<rparr> \<lparr>vx = - 1, vy = 0, vz = 0\<rparr>
         None identity_quaternion \<lparr>vx = 7, vy = 7, vz = 7\<rparr>
         \<lparr>mem = (\<lambda>_. identity_quaternion), brk = 0\<rparr>
       = (0, \<lparr>mem = (\<lambda>_. identity_quaternion)(0 := \<lparr>qx = 0, qy = 0, qz = 1, qw = 0\<rparr>), brk = 1\<rparr>)"
proof -
  have p: "np_linalg_norm (np_cross \<lparr>vx = 1, vy = 0, vz = 0\<rparr> \<lparr>vx = - 1, vy = 0, vz = 0\<rparr>) = 0"
    by (simp add: np_linalg_norm_def np_cross_def)
  show ?thesis
    using p parallel_replacement_axis [OF p, of "\<lparr>vx = 7, vy = 7, vz = 7\<rparr>" None identity_quaternion
        "\<lparr>mem = (\<lambda>_. identity_quaternion), brk = 0\<rparr>"]
    by (simp add: out_or_empty_def np_empty_def axis_angle_quat_def
        np_arctan2_def np_dot_def np_linalg_norm_def)
qed

text \<open>
  The claim's priority fails where \<open>source.y = 0\<close> and \<open>source.z = 0\<close>: for
  \<open>source = (1, 0, 0)\<close> and \<open>target = (-1, 0, 0)\<close> the axis is not \<open>(0, 1, 0)\<close>,
  and the quaternion returned is \<open>(0, 0, 1, 0)\<close>, the half turn about z.
\<close>

theorem parallel_axis_priority_counterexample:
  "np_linalg_norm (np_cross \<lparr>vx = 1, vy = 0, vz = 0\<rparr> \<lparr>vx = - 1, vy = 0, vz = 0\<rparr>) = 0
   \<and> vy \<lparr>vx = 1, vy = 0, vz = 0\<rparr> = 0
   \<and> fallback_axis \<lparr>vx = 1, vy = 0, vz = 0\<rparr> \<lparr>vx = 7, vy = 7, vz = 7\<rparr> \<noteq> \<lparr>vx = 0, vy = 1, vz = 0\<rparr>
   \<and> mem (snd (quaternion_make_from_unit_vectors \<lparr>vx = 1, vy = 0, vz = 0\<rparr>
                   \<lparr>vx = - 1, vy = 0, vz = 0\<rparr> None identity_quaternion \<lparr>vx = 7, vy = 7, vz = 7\<rparr>
                   \<lparr>mem = (\<lambda>_. identity_quaternion), brk = 0\<rparr>)) 0
       = \<lparr>qx = 0, qy = 0, qz = 1, qw = 0\<rparr>"
  by (simp add: fallback_axis_def quaternion_make_from_unit_vectors_def Let_def split_beta
      quaternion_make_from_axis_angle_eq out_or_empty_def np_empty_def axis_angle_quat_def
      np_arctan2_def np_dot_def np_linalg_norm_def np_cross_def)


subsection \<open>Results within the range of float64\<close>

lemma underflow_threshold_pos: "0 < underflow_threshold"
  by (simp add: underflow_threshold_def)

lemma underflow_threshold_less_1: "underflow_threshold < 1"
  by (simp add: underflow_threshold_def)

lemma overflow_threshold_greater_1: "1 < overflow_threshold"
proof -
  have "(2::real) ^ 970 * 2 \<le> 2 ^ 970 * 2 ^ 54"
    by (intro mult_left_mono) simp_all
  then have "(2::real) ^ 970 + 2 ^ 970 \<le> 2 ^ 1024"
    by (simp add: power_add [symmetric])
  moreover have "(1::real) < 2 ^ 970"
    by simp
  ultimately show ?thesis
    by (simp add: overflow_threshold_def)
qed

lemma round_range_Finite:
  assumes "underflow_threshold < \<bar>r\<bar>" and "\<bar>r\<bar> < overflow_threshold"
  shows "round_range r = Finite r"
  using assms by (auto simp: round_range_def)

lemma round_range_0: "round_range 0 = Finite 0"
  using underflow_threshold_pos overflow_threshold_greater_1 by (simp add: round_range_def)

lemma round_range_1: "round_range 1 = Finite 1"
  using underflow_threshold_less_1 overflow_threshold_greater_1
  by (intro round_range_Finite) simp_all

text \<open>
  Results between \<open>2^-1074\<close> and \<open>2^1022\<close> in magnitude are numbers, and so are the squares
  of moderate components, their sum, its root and the quotients.
\<close>

lemma overflow_threshold_ge: "(2::real) ^ 1023 \<le> overflow_threshold"
proof -
  have "(2::real) ^ 970 \<le> 2 ^ 1023" by (intro power_increasing) simp_all
  moreover have "(2::real) ^ 1024 = 2 ^ 1023 + 2 ^ 1023" by simp
  ultimately show ?thesis by (simp add: overflow_threshold_def)
qed

lemma round_range_between:
  assumes "1 / 2 ^ 1074 \<le> \<bar>r\<bar>" and "\<bar>r\<bar> \<le> 2 ^ 1022"
  shows "round_range r = Finite r"
proof (rule round_range_Finite)
  have "underflow_threshold < 1 / 2 ^ 1074"
    by (simp add: underflow_threshold_def)
  then show "underflow_threshold < \<bar>r\<bar>" using assms(1) by linarith
  have "(2::real) ^ 1022 < 2 ^ 1023" by (intro power_strict_increasing) simp_all
  then show "\<bar>r\<bar> < overflow_threshold" using assms(2) overflow_threshold_ge by linarith
qed

lemma round_range_zero_or_between:
  assumes "r = 0 \<or> (1 / 2 ^ 1074 \<le> \<bar>r\<bar> \<and> \<bar>r\<bar> \<le> 2 ^ 1022)"
  shows "round_range r = Finite r"
  using assms round_range_0 round_range_between by auto


lemma moderate_square:
  assumes "moderate c"
  shows "c * c = 0 \<or> (1 / 2 ^ 500 \<le> c * c \<and> c * c \<le> 2 ^ 500)"
proof (cases "c = 0")
  case True
  then show ?thesis by simp
next
  case False
  then have lo: "1 / 2 ^ 250 \<le> \<bar>c\<bar>" and hi: "\<bar>c\<bar> \<le> 2 ^ 250"
    using assms by (simp_all add: moderate_def)
  have "(1 / 2 ^ 250) * (1 / 2 ^ 250) \<le> \<bar>c\<bar> * \<bar>c\<bar>"
    using lo by (intro mult_mono) simp_all
  moreover have "\<bar>c\<bar> * \<bar>c\<bar> \<le> 2 ^ 250 * 2 ^ 250"
    using hi by (intro mult_mono) simp_all
  moreover have "(1 / 2 ^ 250) * (1 / 2 ^ 250) = (1::real) / 2 ^ 500"
    by (simp add: power_add [symmetric])
  moreover have "(2::real) ^ 250 * 2 ^ 250 = 2 ^ 500"
    by (simp add: power_add [symmetric])
  ultimately show ?thesis by simp
qed

lemma f_mul_square:
  assumes "moderate c"
  shows "f_mul (Finite c) (Finite c) = Finite (c * c)"
proof -
  have "(1::real) / 2 ^ 1074 \<le> 1 / 2 ^ 500" by (simp add: field_simps)
  moreover have "(2::real) ^ 500 \<le> 2 ^ 1022" by (intro power_increasing) simp_all
  moreover have "0 \<le> c * c" by simp
  ultimately have "c * c = 0 \<or> (1 / 2 ^ 1074 \<le> \<bar>c * c\<bar> \<and> \<bar>c * c\<bar> \<le> 2 ^ 1022)"
    using moderate_square [OF assms] by (simp only: abs_of_nonneg) linarith
  then show ?thesis by (simp only: f_mul.simps round_range_zero_or_between)
qed


lemma moderate_norm:
  assumes "a \<noteq> \<lparr>vx = 0, vy = 0, vz = 0\<rparr>"
    and "moderate (vx a)" and "moderate (vy a)" and "moderate (vz a)"
  shows "np_linalg_norm_float64 a = Finite (np_linalg_norm a)"
    and "1 / 2 ^ 250 \<le> np_linalg_norm a" and "np_linalg_norm a \<le> 2 ^ 251"
proof -
  let ?x = "vx a * vx a" and ?y = "vy a * vy a" and ?z = "vz a * vz a"
  note sx = moderate_square [OF assms(2)]
  note sy = moderate_square [OF assms(3)]
  note sz = moderate_square [OF assms(4)]
  have nn: "0 \<le> ?x" "0 \<le> ?y" "0 \<le> ?z" by simp_all
  have small: "(1::real) / 2 ^ 1074 \<le> 1 / 2 ^ 500" by (simp add: field_simps)
  have big: "(2::real) ^ 500 + 2 ^ 500 + 2 ^ 500 \<le> 2 ^ 1022" by simp
  have xy: "?x + ?y = 0 \<or> (1 / 2 ^ 1074 \<le> \<bar>?x + ?y\<bar> \<and> \<bar>?x + ?y\<bar> \<le> 2 ^ 1022)"
    using sx sy nn small big by (simp only: abs_of_nonneg add_nonneg_nonneg) linarith
  have "vx a \<noteq> 0 \<or> vy a \<noteq> 0 \<or> vz a \<noteq> 0"
    using assms(1) by (cases a) simp
  then have pos: "?x \<noteq> 0 \<or> ?y \<noteq> 0 \<or> ?z \<noteq> 0" by simp
  have lo: "1 / 2 ^ 500 \<le> ?x + ?y + ?z"
    using sx sy sz nn pos by linarith
  have ux: "?x \<le> 2 ^ 500" using sx by auto
  have uy: "?y \<le> 2 ^ 500" using sy by auto
  have uz: "?z \<le> 2 ^ 500" using sz by auto
  have hi: "?x + ?y + ?z \<le> 2 ^ 500 + 2 ^ 500 + 2 ^ 500"
    using ux uy uz by linarith
  have xyz: "?x + ?y + ?z = 0
             \<or> (1 / 2 ^ 1074 \<le> \<bar>?x + ?y + ?z\<bar> \<and> \<bar>?x + ?y + ?z\<bar> \<le> 2 ^ 1022)"
    using lo hi nn small big by (simp only: abs_of_nonneg add_nonneg_nonneg) linarith
  have n2: "(np_linalg_norm a)\<^sup>2 = ?x + ?y + ?z"
    by (simp add: np_linalg_norm_def power2_eq_square)
  have n0: "0 \<le> np_linalg_norm a"
    by (simp add: np_linalg_norm_def)
  have "f_add (f_add (f_mul (Finite (vx a)) (Finite (vx a)))
                 (f_mul (Finite (vy a)) (Finite (vy a))))
          (f_mul (Finite (vz a)) (Finite (vz a))) = Finite (?x + ?y + ?z)"
    by (simp only: f_mul_square [OF assms(2)] f_mul_square [OF assms(3)]
        f_mul_square [OF assms(4)] f_add.simps round_range_zero_or_between [OF xy]
        round_range_zero_or_between [OF xyz])
  moreover have "\<not> ?x + ?y + ?z < 0"
    using nn by linarith
  ultimately show "np_linalg_norm_float64 a = Finite (np_linalg_norm a)"
    by (simp only: np_linalg_norm_float64_def Let_def f_sqrt.simps if_False
        np_linalg_norm_def power2_eq_square)
  have "(1 / 2 ^ 250)\<^sup>2 = (1::real) / 2 ^ 500"
    by (simp add: power_divide power_mult [symmetric])
  then have "(1 / 2 ^ 250)\<^sup>2 \<le> (np_linalg_norm a)\<^sup>2"
    using lo n2 by simp
  then show "1 / 2 ^ 250 \<le> np_linalg_norm a"
    using n0 by (rule power2_le_imp_le)
  have "((2::real) ^ 251)\<^sup>2 = 2 ^ 502"
    by (simp add: power_mult [symmetric])
  moreover have "(2::real) ^ 500 + 2 ^ 500 + 2 ^ 500 \<le> 2 ^ 502" by simp
  ultimately have "(np_linalg_norm a)\<^sup>2 \<le> ((2::real) ^ 251)\<^sup>2"
    using hi n2 by linarith
  then show "np_linalg_norm a \<le> 2 ^ 251"
    by (rule power2_le_imp_le) simp
qed

lemma abs_le_np_linalg_norm:
  "\<bar>vx a\<bar> \<le> np_linalg_norm a" "\<bar>vy a\<bar> \<le> np_linalg_norm a" "\<bar>vz a\<bar> \<le> np_linalg_norm a"
proof -
  have n0: "0 \<le> np_linalg_norm a" by (simp add: np_linalg_norm_def)
  have n2: "(np_linalg_norm a)\<^sup>2 = (vx a)\<^sup>2 + (vy a)\<^sup>2 + (vz a)\<^sup>2"
    by (simp add: np_linalg_norm_def)
  have "\<bar>vx a\<bar>\<^sup>2 \<le> (np_linalg_norm a)\<^sup>2" by (simp add: n2)
  then show "\<bar>vx a\<bar> \<le> np_linalg_norm a" using n0 by (rule power2_le_imp_le)
  have "\<bar>vy a\<bar>\<^sup>2 \<le> (np_linalg_norm a)\<^sup>2" by (simp add: n2)
  then show "\<bar>vy a\<bar> \<le> np_linalg_norm a" using n0 by (rule power2_le_imp_le)
  have "\<bar>vz a\<bar>\<^sup>2 \<le> (np_linalg_norm a)\<^sup>2" by (simp add: n2)
  then show "\<bar>vz a\<bar> \<le> np_linalg_norm a" using n0 by (rule power2_le_imp_le)
qed

lemma moderate_quotient:
  assumes "moderate c" and "\<bar>c\<bar> \<le> n" and "1 / 2 ^ 250 \<le> n" and "n \<le> 2 ^ 251"
  shows "f_div (Finite c) (Finite n) = Finite (c / n)"
    and "c / n = 0 \<or> (1 / 2 ^ 501 \<le> \<bar>c / n\<bar> \<and> \<bar>c / n\<bar> \<le> 1)"
proof -
  have npos: "0 < n" using assms(3) by (rule less_le_trans [rotated]) simp
  show q: "c / n = 0 \<or> (1 / 2 ^ 501 \<le> \<bar>c / n\<bar> \<and> \<bar>c / n\<bar> \<le> 1)"
  proof (cases "c = 0")
    case True
    then show ?thesis by simp
  next
    case False
    then have lo: "1 / 2 ^ 250 \<le> \<bar>c\<bar>" using assms(1) by (simp add: moderate_def)
    have eq: "(1 / 2 ^ 250) / 2 ^ 251 = (1::real) / 2 ^ 501"
      by (simp add: power_add [symmetric])
    have ab: "\<bar>c / n\<bar> = \<bar>c\<bar> / n" using npos by simp
    have "(1 / 2 ^ 250) / 2 ^ 251 \<le> \<bar>c\<bar> / n"
      using lo npos assms(4) by (intro frac_le) simp_all
    then have l: "1 / 2 ^ 501 \<le> \<bar>c / n\<bar>"
      by (simp only: eq ab)
    have "\<bar>c\<bar> / n \<le> 1" using assms(2) npos by simp
    then have h: "\<bar>c / n\<bar> \<le> 1"
      by (simp only: ab)
    show ?thesis using l h by blast
  qed
  have "(1::real) / 2 ^ 1074 \<le> 1 / 2 ^ 501" by (simp add: field_simps)
  moreover have "(1::real) \<le> 2 ^ 1022" by simp
  ultimately have "c / n = 0 \<or> (1 / 2 ^ 1074 \<le> \<bar>c / n\<bar> \<and> \<bar>c / n\<bar> \<le> 2 ^ 1022)"
    using q by linarith
  then have "round_range (c / n) = Finite (c / n)"
    by (rule round_range_zero_or_between)
  then show "f_div (Finite c) (Finite n) = Finite (c / n)"
    using npos by simp
qed

lemma moderate_product:
  assumes "q = 0 \<or> (1 / 2 ^ 501 \<le> \<bar>q\<bar> \<and> \<bar>q\<bar> \<le> 1)"
    and "s = 0 \<or> 1 / 2 ^ 500 \<le> \<bar>s\<bar>" and "\<bar>s\<bar> \<le> 1"
  shows "f_mul (Finite q) (Finite s) = Finite (s * q)"
proof -
  have "q * s = 0 \<or> (1 / 2 ^ 1074 \<le> \<bar>q * s\<bar> \<and> \<bar>q * s\<bar> \<le> 2 ^ 1022)"
  proof (cases "q = 0 \<or> s = 0")
    case True
    then show ?thesis by auto
  next
    case False
    then have lq: "1 / 2 ^ 501 \<le> \<bar>q\<bar>" and hq: "\<bar>q\<bar> \<le> 1" and ls: "1 / 2 ^ 500 \<le> \<bar>s\<bar>"
      using assms(1,2) by auto
    have "(1 / 2 ^ 501) * (1 / 2 ^ 500) \<le> \<bar>q\<bar> * \<bar>s\<bar>"
      using lq ls by (intro mult_mono) simp_all
    moreover have "(1 / 2 ^ 501) * (1 / 2 ^ 500) = (1::real) / 2 ^ 1001"
      by (simp add: power_add [symmetric])
    moreover have "(1::real) / 2 ^ 1074 \<le> 1 / 2 ^ 1001" by (simp add: field_simps)
    moreover have "\<bar>q\<bar> * \<bar>s\<bar> \<le> 1 * 1"
      using hq assms(3) by (intro mult_mono) simp_all
    moreover have "(1::real) \<le> 2 ^ 1022" by simp
    ultimately show ?thesis by (simp only: abs_mult) linarith
  qed
  then have "round_range (q * s) = Finite (q * s)"
    by (rule round_range_zero_or_between)
  then show ?thesis by (simp add: mult.commute)
qed

lemma axis_angle_float64_in_range:
  assumes "a \<noteq> \<lparr>vx = 0, vy = 0, vz = 0\<rparr>"
    and "moderate (vx a)" and "moderate (vy a)" and "moderate (vz a)"
    and "sin (angle / 2) = 0 \<or> 1 / 2 ^ 500 \<le> \<bar>sin (angle / 2)\<bar>"
  shows "quaternion_make_from_axis_angle_float64 a angle
           = (\<lparr>slot0 = Finite (vx a / np_linalg_norm a),
               slot1 = Finite (vy a / np_linalg_norm a),
               slot2 = Finite (vz a / np_linalg_norm a)\<rparr>,
              \<lparr>cell0 = Finite (qx (axis_angle_quat a angle)),
               cell1 = Finite (qy (axis_angle_quat a angle)),
               cell2 = Finite (qz (axis_angle_quat a angle)),
               cell3 = Finite (qw (axis_angle_quat a angle))\<rparr>)"
proof -
  note n = moderate_norm [OF assms(1-4)]
  note qx = moderate_quotient [OF assms(2) abs_le_np_linalg_norm(1) n(2,3)]
  note qy = moderate_quotient [OF assms(3) abs_le_np_linalg_norm(2) n(2,3)]
  note qz = moderate_quotient [OF assms(4) abs_le_np_linalg_norm(3) n(2,3)]
  have s1: "\<bar>sin (angle / 2)\<bar> \<le> 1" by simp
  show ?thesis
    by (simp only: quaternion_make_from_axis_angle_float64_def Let_def n(1) qx(1) qy(1) qz(1)
        float3.simps moderate_product [OF qx(2) assms(5) s1]
        moderate_product [OF qy(2) assms(5) s1] moderate_product [OF qz(2) assms(5) s1]
        axis_angle_quat_def quat.simps)
qed

subsection \<open>C10: the unit-quaternion invariant\<close>

text \<open>
  An axis so long that the square of a component overflows has the norm infinity: the
  division makes the axis zero and the result is \<open>(0, 0, 0, cos(angle/2))\<close>. An axis so
  short that the squares underflow has the norm zero: the division gives an infinity
  and NaN.
\<close>

lemma axis_angle_float64_overflow:
  "quaternion_make_from_axis_angle_float64 \<lparr>vx = 10 ^ 200, vy = 0, vz = 0\<rparr> angle
     = (\<lparr>slot0 = Finite 0, slot1 = Finite 0, slot2 = Finite 0\<rparr>,
        \<lparr>cell0 = Finite 0, cell1 = Finite 0, cell2 = Finite 0,
         cell3 = Finite (cos (angle / 2))\<rparr>)"
proof -
  have "overflow_threshold \<le> 10 ^ 200 * 10 ^ 200"
    by (simp add: overflow_threshold_def)
  then have "round_range (10 ^ 200 * 10 ^ 200) = PInf"
    by (simp only: round_range_def if_True)
  then show ?thesis
    by (simp add: quaternion_make_from_axis_angle_float64_def np_linalg_norm_float64_def
        round_range_0)
qed

lemma axis_angle_float64_underflow:
  "quaternion_make_from_axis_angle_float64 \<lparr>vx = 1 / 10 ^ 200, vy = 0, vz = 0\<rparr> pi
     = (\<lparr>slot0 = PInf, slot1 = NaN, slot2 = NaN\<rparr>,
        \<lparr>cell0 = PInf, cell1 = NaN, cell2 = NaN, cell3 = Finite 0\<rparr>)"
proof -
  have "\<bar>1 / 10 ^ 200 * (1 / 10 ^ 200) :: real\<bar> \<le> underflow_threshold"
    by (simp add: underflow_threshold_def)
  moreover have "\<not> overflow_threshold \<le> 1 / 10 ^ 200 * (1 / 10 ^ 200)"
    using overflow_threshold_greater_1 by simp
  moreover have "\<not> 1 / 10 ^ 200 * (1 / 10 ^ 200) \<le> - overflow_threshold"
    using overflow_threshold_greater_1 by simp
  ultimately have "round_range (1 / 10 ^ 200 * (1 / 10 ^ 200)) = Finite 0"
    by (simp only: round_range_def if_True if_False)
  then show ?thesis
    by (simp add: quaternion_make_from_axis_angle_float64_def np_linalg_norm_float64_def
        round_range_0)
qed

text \<open>
  Within the range the cells are the numbers that the model over the reals leaves in
  the store.
\<close>

lemma axis_angle_store_in_range:
  assumes "values_of axis \<noteq> \<lparr>vx = 0, vy = 0, vz = 0\<rparr>"
    and "moderate (vx (values_of axis))" and "moderate (vy (values_of axis))"
    and "moderate (vz (values_of axis))"
    and "sin (angle / 2) = 0 \<or> 1 / 2 ^ 500 \<le> \<bar>sin (angle / 2)\<bar>"
  shows "(let (axis', p, h') = quaternion_make_from_axis_angle axis angle None u h
          in \<lparr>cell0 = Finite (qx (mem h' p)), cell1 = Finite (qy (mem h' p)),
              cell2 = Finite (qz (mem h' p)), cell3 = Finite (qw (mem h' p))\<rparr>)
           = snd (quaternion_make_from_axis_angle_float64 (values_of axis) angle)"
  by (simp add: quaternion_make_from_axis_angle_eq axis_angle_float64_in_range [OF assms])

text \<open>
  C10. For every non-zero axis whose components are zero or between \<open>2^-250\<close> and \<open>2^250\<close>
  in magnitude, of any length within these bounds, and every angle for which
  \<open>sin(angle/2)\<close> is zero or at least \<open>2^-500\<close> in magnitude,
  \<open>quaternion_make_from_axis_angle\<close> writes four numbers, the components of
  \<open>(sin(angle/2) * axis / |axis|, cos(angle/2))\<close>, which is a quaternion of norm 1; and
  for all unit quaternions \<open>a\<close> and \<open>b\<close>, \<open>quaternion_multiply(a, b)\<close> and
  \<open>quaternion_inverse(a)\<close> have norm 1.
\<close>

theorem unit_quaternion_invariant:
  assumes "axis \<noteq> \<lparr>vx = 0, vy = 0, vz = 0\<rparr>"
    and "moderate (vx axis)" and "moderate (vy axis)" and "moderate (vz axis)"
    and "sin (angle / 2) = 0 \<or> 1 / 2 ^ 500 \<le> \<bar>sin (angle / 2)\<bar>"
    and "allocated h a" and "allocated h b"
    and "quat_norm (np_asarray h a) = 1" and "quat_norm (np_asarray h b) = 1"
  shows "snd (quaternion_make_from_axis_angle_float64 axis angle)
           = \<lparr>cell0 = Finite (qx (axis_angle_quat axis angle)),
              cell1 = Finite (qy (axis_angle_quat axis angle)),
              cell2 = Finite (qz (axis_angle_quat axis angle)),
              cell3 = Finite (qw (axis_angle_quat axis angle))\<rparr>
       \<and> quat_norm (axis_angle_quat axis angle) = 1
       \<and> (let (p, h') = quaternion_multiply a b None u h in quat_norm (mem h' p)) = 1
       \<and> (let (p, h') = quaternion_inverse a None u h in quat_norm (mem h' p)) = 1"
proof (intro conjI)
  show "snd (quaternion_make_from_axis_angle_float64 axis angle)
           = \<lparr>cell0 = Finite (qx (axis_angle_quat axis angle)),
              cell1 = Finite (qy (axis_angle_quat axis angle)),
              cell2 = Finite (qz (axis_angle_quat axis angle)),
              cell3 = Finite (qw (axis_angle_quat axis angle))\<rparr>"
    by (simp only: axis_angle_float64_in_range [OF assms(1-5)] snd_conv)
  show "quat_norm (axis_angle_quat axis angle) = 1"
    by (rule quat_norm_axis_angle [OF assms(1)])
  show "(let (p, h') = quaternion_multiply a b None u h in quat_norm (mem h' p)) = 1"
    by (simp add: quaternion_multiply_fresh [OF assms(6,7)] quat_norm_hamilton assms(8,9))
  show "(let (p, h') = quaternion_inverse a None u h in quat_norm (mem h' p)) = 1"
    by (simp add: quaternion_inverse_fresh [OF assms(6)] quat_norm_conjugate assms(8))
qed

theorem unit_quaternion_invariant_witness:
  "\<lparr>vx = 0, vy = 0, vz = 2\<rparr> \<noteq> \<lparr>vx = 0, vy = 0, vz = 0\<rparr>
   \<and> moderate 0 \<and> moderate 2
   \<and> (sin (pi / 2) = 0 \<or> 1 / 2 ^ 500 \<le> \<bar>sin (pi / 2)\<bar>)
   \<and> allocated \<lparr>mem = (\<lambda>_. \<lparr>qx = 3/5, qy = 0, qz = 4/5, qw = 0\<rparr>), brk = 1\<rparr> (Ref 0)
   \<and> quat_norm (np_asarray \<lparr>mem = (\<lambda>_. \<lparr>qx = 3/5, qy = 0, qz = 4/5, qw = 0\<rparr>), brk = 1\<rparr> (Ref 0)) = 1
   \<and> snd (quaternion_make_from_axis_angle_float64 \<lparr>vx = 0, vy = 0, vz = 2\<rparr> pi)
       = \<lparr>cell0 = Finite 0, cell1 = Finite 0, cell2 = Finite 1, cell3 = Finite 0\<rparr>
   \<and> quat_norm \<lparr>qx = 0, qy = 0, qz = 1, qw = 0\<rparr> = 1
   \<and> (let (p, h') = quaternion_multiply (Ref 0) (Ref 0) None identity_quaternion
                       \<lparr>mem = (\<lambda>_. \<lparr>qx = 3/5, qy = 0, qz = 4/5, qw = 0\<rparr>), brk = 1\<rparr>
        in quat_norm (mem h' p)) = 1
   \<and> (let (p, h') = quaternion_inverse (Ref 0) None identity_quaternion
                       \<lparr>mem = (\<lambda>_. \<lparr>qx = 3/5, qy = 0, qz = 4/5, qw = 0\<rparr>), brk = 1\<rparr>
        in quat_norm (mem h' p)) = 1"
proof -
  let ?h = "\<lparr>mem = (\<lambda>_. \<lparr>qx = 3/5, qy = 0, qz = 4/5, qw = 0\<rparr>), brk = 1\<rparr>"
  let ?ax = "\<lparr>vx = 0, vy = 0, vz = 2\<rparr>"
  have ax: "?ax \<noteq> \<lparr>vx = 0, vy = 0, vz = 0\<rparr>" by simp
  have m0: "moderate 0" by (simp add: moderate_def)
  have m2: "moderate 2" by (simp add: moderate_def)
  have mx: "moderate (vx ?ax)" and my: "moderate (vy ?ax)" and mz: "moderate (vz ?ax)"
    using m0 m2 by simp_all
  have s: "sin (pi / 2) = 0 \<or> 1 / 2 ^ 500 \<le> \<bar>sin (pi / 2)\<bar>" by simp
  have a: "allocated ?h (Ref 0)" by simp
  have n: "quat_norm (np_asarray ?h (Ref 0)) = 1"
    by (simp add: quat_norm_def power2_eq_square)
  have e: "axis_angle_quat ?ax pi = \<lparr>qx = 0, qy = 0, qz = 1, qw = 0\<rparr>"
    using real_sqrt_abs [of 2] by (simp add: axis_angle_quat_def np_linalg_norm_def)
  show ?thesis
    using ax m0 m2 s a n
      unit_quaternion_invariant [OF ax mx my mz s a a n n, of identity_quaternion]
    by (simp add: e)
qed

text \<open>
  Not for an axis of any length: \<open>(10^200, 0, 0)\<close> with the angle \<open>pi\<close> gives the zero
  quaternion, of norm 0, and \<open>(10^-200, 0, 0)\<close> gives an infinity and NaN.
\<close>

theorem unit_quaternion_invariant_counterexample:
  "snd (quaternion_make_from_axis_angle_float64 \<lparr>vx = 10 ^ 200, vy = 0, vz = 0\<rparr> pi)
     = \<lparr>cell0 = Finite 0, cell1 = Finite 0, cell2 = Finite 0, cell3 = Finite 0\<rparr>
   \<and> quat_norm \<lparr>qx = 0, qy = 0, qz = 0, qw = 0\<rparr> = 0
   \<and> snd (quaternion_make_from_axis_angle_float64 \<lparr>vx = 1 / 10 ^ 200, vy = 0, vz = 0\<rparr> pi)
       = \<lparr>cell0 = PInf, cell1 = NaN, cell2 = NaN, cell3 = Finite 0\<rparr>"
  apply (simp only: axis_angle_float64_overflow axis_angle_float64_underflow snd_conv)
  apply (simp add: quat_norm_def)
  done

subsection \<open>C4: the spherical coordinates of the y axis\<close>

text \<open>
  The second cell of the result for \<open>(0, 1, 0)\<close>: \<open>x = z = 0\<close> masks both calls, and the
  cell is \<open>sign(x) = 0\<close> times whatever the masked \<^verbatim>\<open>arccos\<close> left unwritten in
  its result. That is 0 for a number, and NaN for NaN and for an infinity.
\<close>

lemma spherical_of_y_axis_polar:
  "slot1 (vector_euclidean_to_spherical \<lparr>vx = 0, vy = 1, vz = 0\<rparr> u1 u2 u3 u4)
     = f_mul (Finite 0) u2"
  by (simp add: vector_euclidean_to_spherical_def masked_def round_range_0 round_range_1)

lemma spherical_of_y_axis_polar_number:
  "slot1 (vector_euclidean_to_spherical \<lparr>vx = 0, vy = 1, vz = 0\<rparr> u1 (Finite v) u3 u4)
     = Finite 0"
  by (simp add: spherical_of_y_axis_polar round_range_0)

lemma spherical_of_y_axis_polar_nan:
  "slot1 (vector_euclidean_to_spherical \<lparr>vx = 0, vy = 1, vz = 0\<rparr> u1 NaN u3 u4) = NaN"
  "slot1 (vector_euclidean_to_spherical \<lparr>vx = 0, vy = 1, vz = 0\<rparr> u1 PInf u3 u4) = NaN"
  "slot1 (vector_euclidean_to_spherical \<lparr>vx = 0, vy = 1, vz = 0\<rparr> u1 NInf u3 u4) = NaN"
  by (simp_all add: spherical_of_y_axis_polar)



subsection \<open>C5: normalising vectors\<close>

lemma sqrt_25: "sqrt 25 = 5"
  using real_sqrt_abs [of 5] by simp

lemma upt_2: "[0..<2] = [0, 1]"
  by (simp add: upt_rec)

lemma upt_3: "[0..<3] = [0, 1, 2]"
  by (simp add: upt_rec)

lemma upt_6: "[0..<6] = [0, 1, 2, 3, 4, 5]"
  by (simp add: upt_rec)

text \<open>Every array with one axis, a single vector, is refused.\<close>

lemma vector_normalize_one_axis:
  "shape v = [n] \<Longrightarrow> vector_normalize v out dtype = Inl IndexError"
  by (simp add: vector_normalize_def np_linalg_norm_last_axis_def getitem_colon_None_def Let_def)

text \<open>The batch of the specification's example, as floats, is normalised row by row.\<close>

lemma vector_normalize_batch_example:
  "vector_normalize \<lparr>dtype_of = Float64, shape = [2, 3], cells = [3, 0, 4, 0, 5, 0]\<rparr> None None
     = Inr \<lparr>dtype_of = Float64, shape = [2, 3], cells = [3 / 5, 0, 4 / 5, 0, 1, 0]\<rparr>"
  by (simp add: vector_normalize_def np_linalg_norm_last_axis_def getitem_colon_None_def Let_def
      np_divide_def broadcastable_def broadcast_cell_def upt_2 upt_3 upt_6 sqrt_25)

text \<open>
  The same batch as integers: \<^verbatim>\<open>np.empty_like\<close> makes an integer
  \<^verbatim>\<open>out\<close>, into which the quotient is not cast.
\<close>

lemma vector_normalize_int_example:
  "vector_normalize \<lparr>dtype_of = Int64, shape = [2, 3], cells = [3, 0, 4, 0, 5, 0]\<rparr> None None
     = Inl TypeError"
  by (simp add: vector_normalize_def np_linalg_norm_last_axis_def getitem_colon_None_def Let_def
      np_divide_def)

text \<open>
  Two leading axes: the norms, of shape \<open>(1, 2)\<close>, become \<open>(1, 1, 2)\<close>, which does not
  broadcast to \<open>(1, 2, 3)\<close>.
\<close>

lemma vector_normalize_two_leading_axes_example:
  "vector_normalize \<lparr>dtype_of = Float64, shape = [1, 2, 3], cells = [3, 0, 4, 0, 5, 0]\<rparr> None None
     = Inl ValueError"
  by (simp add: vector_normalize_def np_linalg_norm_last_axis_def getitem_colon_None_def Let_def
      np_divide_def broadcastable_def)

text \<open>
  C5 says that \<open>vector_normalize\<close> returns a unit vector for every non-zero input of
  trailing dimension 3, a single vector of shape \<open>[3]\<close> included. On the single vector
  \<open>[3, 0, 4]\<close> the code raises IndexError: the norm along the last axis of a single
  vector is a scalar, and \<^verbatim>\<open>[:, None]\<close> cannot index it.
\<close>

theorem vector_normalize_single_vector:
  "vector_normalize \<lparr>dtype_of = Float64, shape = [3], cells = [3, 0, 4]\<rparr> None None
     = Inl IndexError"
  by (simp add: vector_normalize_def np_linalg_norm_last_axis_def getitem_colon_None_def Let_def)

subsection \<open>C6: the caller's axis array\<close>

text \<open>
  What the caller's \<^verbatim>\<open>axis\<close> argument holds after the call: a float64 array
  holds the normalised axis, anything else was copied and is as before.
\<close>

lemma axis_argument_after_call:
  "fst (quaternion_make_from_axis_angle axis angle out u h) =
     (if asarray_is_same_object axis
      then Ndarray Float64 (vdiv (values_of axis) (np_linalg_norm (values_of axis)))
      else axis)"
  by (simp add: quaternion_make_from_axis_angle_eq)

text \<open>
  C6 says that every input array other than \<open>out\<close> holds the same values after a call
  as before it, in particular the caller's axis array of
  \<open>quaternion_make_from_axis_angle\<close>. The code divides that array in place: called
  with the float64 array \<open>[0, 0, 2]\<close>, it leaves \<open>[0, 0, 1]\<close> in it.
\<close>

theorem axis_angle_overwrites_axis:
  "fst (quaternion_make_from_axis_angle (Ndarray Float64 \<lparr>vx = 0, vy = 0, vz = 2\<rparr>) 0 None u h)
     = Ndarray Float64 \<lparr>vx = 0, vy = 0, vz = 1\<rparr>"
  by (simp add: quaternion_make_from_axis_angle_eq vdiv_def np_linalg_norm_def)


subsection \<open>C8: an output buffer together with a type override\<close>

text \<open>
  C8, as the code has it. A call that supplies both \<^verbatim>\<open>out\<close> and
  \<^verbatim>\<open>dtype\<close> does not fail because of the two: \<^verbatim>\<open>dtype\<close> is read only
  under \<^verbatim>\<open>if out is None\<close>, so the call does what the same call without
  \<^verbatim>\<open>dtype\<close> does, and a result has the element type of the buffer. Stated for
  \<open>quaternion_to_matrix\<close> and \<open>vector_normalize\<close>.
\<close>

theorem out_overrides_dtype:
  "quaternion_to_matrix q (Some b) dtype u = quaternion_to_matrix q (Some b) None u
   \<and> (case quaternion_to_matrix q (Some b) dtype u of
         Inl e \<Rightarrow> e = IndexError
       | Inr r \<Rightarrow> dtype_of r = fst b)
   \<and> vector_normalize v (Some d) dtype = vector_normalize v (Some d) None
   \<and> (case vector_normalize v (Some d) dtype of
         Inl e \<Rightarrow> True
       | Inr r \<Rightarrow> dtype_of r = d)"
  by (simp add: quaternion_to_matrix_def result_dtype_def vector_normalize_def Let_def
      np_divide_def split: sum.splits)

text \<open>
  An integer buffer with \<^verbatim>\<open>dtype=float\<close>, and a float buffer with
  \<^verbatim>\<open>dtype=int\<close>: both calls return, with the element type of the buffer.
\<close>

theorem out_dtype_mismatch_counterexample:
  "(\<exists>r. quaternion_to_matrix \<lparr>dtype_of = Float64, shape = [4], cells = [0, 0, 0, 1]\<rparr>
           (Some (Int64, \<lambda>_. 0)) (Some Float64) (\<lambda>_. 0) = Inr r
        \<and> dtype_of r = Int64)
   \<and> vector_normalize \<lparr>dtype_of = Float64, shape = [1, 3], cells = [0, 0, 2]\<rparr>
         (Some Float64) (Some Int64)
       = Inr \<lparr>dtype_of = Float64, shape = [1, 3], cells = [0, 0, 1]\<rparr>"
  by (simp add: quaternion_to_matrix_def result_dtype_def vector_normalize_def Let_def
      np_divide_def np_linalg_norm_last_axis_def getitem_colon_None_def broadcastable_def
      broadcast_cell_def upt_3)

subsection \<open>C9: the unimplemented operations\<close>

text \<open>
  C9. For every input, each of the six declared-but-unimplemented operations
  (\<open>vector_unproject\<close>, \<open>vector_apply_quaternion_rotation\<close>,
  \<open>vector_spherical_to_euclidean\<close>, \<open>vector_distance_between\<close>,
  \<open>vector_from_matrix_position\<close>, \<open>vector_make_spherical_safe\<close>) fails with
  \<open>NotImplementedError\<close>, which is none of the numeric errors, and so never returns a
  numeric result.
\<close>

theorem unimplemented_operations_fail:
  "vector_unproject v m depth out dt = Inl NotImplementedError
   \<and> vector_apply_quaternion_rotation v q out dt = Inl NotImplementedError
   \<and> vector_spherical_to_euclidean v out dt = Inl NotImplementedError
   \<and> vector_distance_between v v' out dt = Inl NotImplementedError
   \<and> vector_from_matrix_position m out dt = Inl NotImplementedError
   \<and> vector_make_spherical_safe v out dt = Inl NotImplementedError
   \<and> NotImplementedError \<notin> numeric_errors
   \<and> vector_unproject v m depth out dt \<noteq> Inr r
   \<and> vector_apply_quaternion_rotation v q out dt \<noteq> Inr r
   \<and> vector_spherical_to_euclidean v out dt \<noteq> Inr r
   \<and> vector_distance_between v v' out dt \<noteq> Inr r
   \<and> vector_from_matrix_position m out dt \<noteq> Inr r
   \<and> vector_make_spherical_safe v out dt \<noteq> Inr r"
  by (simp add: vector_unproject_def vector_apply_quaternion_rotation_def
      vector_spherical_to_euclidean_def vector_distance_between_def
      vector_from_matrix_position_def vector_make_spherical_safe_def numeric_errors_def)

end
